theory Spec2Isabelle
  imports Complex_Main
begin

section \<open>Kron photometry: a shallow embedding of KronPhotometry.cc\<close>

text \<open>
  Conventions of the embedding.
  \<^item> A C++ \<open>double\<close> or \<open>float\<close> is a \<^typ>\<open>real\<close>: rounding, infinities and NaN are
    outside the model. A float field of the output record that may hold NaN (never
    written, or written from the NaN initial value) is a \<^typ>\<open>real option\<close>.
  \<^item> An exception is a value: every function that can throw returns a sum
    (\<open>Inl\<close> the exception), together with the state it had mutated before throwing.
  \<^item> Classes of \<open>afw\<close>, \<open>pex\<close> and \<open>meas_algorithms\<close> that the file only uses are
    records holding what the code reads; the operations the code calls on them and that
    live outside the file (building a footprint from an ellipse, convolution, the sinc
    aperture flux) are the fields of an environment record.
\<close>

subsection \<open>Exceptions\<close>

text \<open>
  The classes of exceptions; \<open>PexException\<close> is the base class
  \<open>pex::exceptions::Exception\<close> itself.
\<close>

datatype ExceptionType =
  OutOfRangeError | LengthError | RuntimeError | UnderflowError
  | BadKronException | InvalidParameterError | PexException

record Exception =
  excType :: ExceptionType
  messages :: "string list"

text \<open>\<open>LSST_EXCEPT(type, msg)\<close> builds an exception; the \<open>throw\<close> is the \<open>Inl\<close> around it.\<close>

definition LSST_EXCEPT :: "ExceptionType \<Rightarrow> string \<Rightarrow> Exception" where
  "LSST_EXCEPT t m = \<lparr>excType = t, messages = [m]\<rparr>"

text \<open>
  \<open>LSST_EXCEPT_ADD(e, msg)\<close> appends a message to an exception that was caught. It does
  not throw: wherever the file wants the exception to travel on, it writes
  \<open>LSST_EXCEPT_ADD(e, ...); throw e;\<close> (\<open>photometer\<close>, \<open>getPsfFactor\<close>,
  \<open>_fallbackRadius\<close>).
\<close>

definition LSST_EXCEPT_ADD :: "Exception \<Rightarrow> string \<Rightarrow> Exception" where
  "LSST_EXCEPT_ADD e m = e\<lparr>messages := messages e @ [m]\<rparr>"

text \<open>
  \<open>throw exc;\<close> where \<open>exc\<close> is a reference of type \<open>pex::exceptions::Exception&\<close>:
  the object thrown is a copy made by the static type of the expression, so it carries
  the messages and is of the base class, whatever class the object referred to has.
\<close>

definition throwByBaseReference :: "Exception \<Rightarrow> Exception" where
  "throwByBaseReference e = e\<lparr>excType := PexException\<rparr>"

subsection \<open>Geometry\<close>

type_synonym Point2D = "real \<times> real"

text \<open>\<open>::hypot\<close> of the C library, without rounding.\<close>

definition hypot :: "real \<Rightarrow> real \<Rightarrow> real" where
  "hypot x y = sqrt (x\<^sup>2 + y\<^sup>2)"

text \<open>\<open>afw::geom::ROOT2\<close>.\<close>

definition ROOT2 :: real where
  "ROOT2 = sqrt 2"

text \<open>
  \<open>afw::geom::ellipses::Axes\<close>: semi-major axis, semi-minor axis, position angle.
  \<open>scale\<close> multiplies both semi-axes; the determinant radius is \<open>sqrt(a*b)\<close>.
\<close>

record Axes =
  getA :: real
  getB :: real
  getTheta :: real

definition scale :: "real \<Rightarrow> Axes \<Rightarrow> Axes" where
  "scale factor axes = axes\<lparr>getA := getA axes * factor, getB := getB axes * factor\<rparr>"

definition getDeterminantRadius :: "Axes \<Rightarrow> real" where
  "getDeterminantRadius axes = sqrt (getA axes * getB axes)"

text \<open>\<open>afw::geom::Box2I\<close>: an integer box, stored as its minimum corner and its dimensions.\<close>

record Box2I =
  boxMinX :: int
  boxMinY :: int
  boxWidth :: int
  boxHeight :: int

definition getMaxX :: "Box2I \<Rightarrow> int" where
  "getMaxX bx = boxMinX bx + boxWidth bx - 1"

definition getMaxY :: "Box2I \<Rightarrow> int" where
  "getMaxY bx = boxMinY bx + boxHeight bx - 1"

definition isEmpty :: "Box2I \<Rightarrow> bool" where
  "isEmpty bx = (boxWidth bx \<le> 0 \<or> boxHeight bx \<le> 0)"

text \<open>\<open>Box2I::contains(Point2I)\<close>.\<close>

definition contains :: "Box2I \<Rightarrow> int \<times> int \<Rightarrow> bool" where
  "contains bx p =
     (boxMinX bx \<le> fst p \<and> boxMinY bx \<le> snd p \<and> fst p \<le> getMaxX bx \<and> snd p \<le> getMaxY bx)"

definition emptyBox :: Box2I where
  "emptyBox = \<lparr>boxMinX = 0, boxMinY = 0, boxWidth = 0, boxHeight = 0\<rparr>"

text \<open>\<open>Box2I::clip\<close>: the intersection with another box, the empty box when they are disjoint.\<close>

definition clip :: "Box2I \<Rightarrow> Box2I \<Rightarrow> Box2I" where
  "clip bx other =
     (if isEmpty bx then bx
      else if isEmpty other then emptyBox
      else
        let x0 = max (boxMinX bx) (boxMinX other);
            y0 = max (boxMinY bx) (boxMinY other);
            x1 = min (getMaxX bx) (getMaxX other);
            y1 = min (getMaxY bx) (getMaxY other)
        in if x1 < x0 \<or> y1 < y0 then emptyBox
           else \<lparr>boxMinX = x0, boxMinY = y0, boxWidth = 1 + (x1 - x0), boxHeight = 1 + (y1 - y0)\<rparr>)"

text \<open>\<open>Kernel::growBBox\<close> for a square kernel of odd size \<open>kSize\<close>, centred.\<close>

definition growBBox :: "int \<Rightarrow> Box2I \<Rightarrow> Box2I" where
  "growBBox kSize bx =
     \<lparr>boxMinX = boxMinX bx - (kSize - 1) div 2, boxMinY = boxMinY bx - (kSize - 1) div 2,
      boxWidth = boxWidth bx + kSize - 1, boxHeight = boxHeight bx + kSize - 1\<rparr>"

subsection \<open>Images, footprints, PSF, exposure\<close>

text \<open>
  A masked image: the pixel planes are indexed by parent coordinates, so a sub-image
  shares them and differs in its origin and dimensions only.
\<close>

record MaskedImage =
  imageAt :: "int \<Rightarrow> int \<Rightarrow> real"
  varianceAt :: "int \<Rightarrow> int \<Rightarrow> real"
  getX0 :: int
  getY0 :: int
  getWidth :: int
  getHeight :: int

definition imageBBox :: "MaskedImage \<Rightarrow> Box2I" where
  "imageBBox im = \<lparr>boxMinX = getX0 im, boxMinY = getY0 im,
                    boxWidth = getWidth im, boxHeight = getHeight im\<rparr>"

text \<open>\<open>ImageT(image, bbox, afw::image::PARENT, deep)\<close>: the view of a box of the image.\<close>

definition subImageOf :: "MaskedImage \<Rightarrow> Box2I \<Rightarrow> MaskedImage" where
  "subImageOf im bx = im\<lparr>getX0 := boxMinX bx, getY0 := boxMinY bx,
                          getWidth := boxWidth bx, getHeight := boxHeight bx\<rparr>"

text \<open>A footprint: its pixels in the order \<open>FootprintFunctor::apply\<close> visits them, and its bounding box.\<close>

record Footprint =
  pixels :: "(int \<times> int) list"
  getBBox :: Box2I

record Psf =
  computeShape :: "Point2D \<Rightarrow> Axes"
  getAveragePosition :: Point2D

record Exposure =
  getMaskedImage :: MaskedImage
  getPsf :: "Psf option"

text \<open>The operations of other packages that the file calls.\<close>

record Env =
  footprintOfEllipse :: "Axes \<Rightarrow> Point2D \<Rightarrow> Footprint"
  convolve :: "MaskedImage \<Rightarrow> real \<Rightarrow> int \<Rightarrow>
                 Exception + ((int \<Rightarrow> int \<Rightarrow> real) \<times> (int \<Rightarrow> int \<Rightarrow> real))"
  calculateSincApertureFlux :: "MaskedImage \<Rightarrow> Axes \<Rightarrow> Point2D \<Rightarrow> Exception + (real \<times> real)"

subsection \<open>FootprintFindMoment\<close>

record FootprintFindMoment =
  fmImage :: MaskedImage
  xcen :: real
  ycen :: real
  ab :: real
  cosTheta :: real
  sinTheta :: real
  fmSum :: real
  fmSumR :: real
  imageX0 :: int
  imageY0 :: int

definition FootprintFindMoment_new ::
  "MaskedImage \<Rightarrow> Point2D \<Rightarrow> real \<Rightarrow> real \<Rightarrow> FootprintFindMoment" where
  "FootprintFindMoment_new mimage center ab0 theta0 =
     \<lparr>fmImage = mimage, xcen = fst center, ycen = snd center, ab = ab0,
      cosTheta = cos theta0, sinTheta = sin theta0, fmSum = 0, fmSumR = 0,
      imageX0 = getX0 mimage, imageY0 = getY0 mimage\<rparr>"

text \<open>\<open>reset(foot)\<close>: clears the sums, and throws when the footprint does not fit the image.\<close>

definition FootprintFindMoment_reset ::
  "FootprintFindMoment \<Rightarrow> Footprint \<Rightarrow> Exception + FootprintFindMoment" where
  "FootprintFindMoment_reset f foot =
     (let f1 = f\<lparr>fmSum := 0, fmSumR := 0\<rparr>;
          mimage = fmImage f1;
          bbox = getBBox foot;
          x0 = boxMinX bbox; y0 = boxMinY bbox; x1 = getMaxX bbox; y1 = getMaxY bbox
      in if x0 < imageX0 f1 \<or> y0 < imageY0 f1 \<or>
            x1 \<ge> imageX0 f1 + getWidth mimage \<or> y1 \<ge> imageY0 f1 + getHeight mimage
         then Inl (LSST_EXCEPT OutOfRangeError ''Footprint doesn't fit in image'')
         else Inr f1)"

text \<open>The elliptical radius that \<open>operator()\<close> gives the pixel \<open>(x, y)\<close>.\<close>

definition pixelRadius :: "FootprintFindMoment \<Rightarrow> int \<Rightarrow> int \<Rightarrow> real" where
  "pixelRadius f x y =
     (let dx = real_of_int x - xcen f;
          dy = real_of_int y - ycen f;
          du = dx * cosTheta f + dy * sinTheta f;
          dv = - dx * sinTheta f + dy * cosTheta f;
          r = hypot du (dv * ab f)
      in if hypot dx dy < 0.5
         then (let eR = 0.38259771140356325 in hypot r (eR * (1 + hypot dx dy / ROOT2)))
         else r)"

text \<open>\<open>operator()\<close>: called for each pixel by \<open>apply\<close>.\<close>

definition FootprintFindMoment_call ::
  "FootprintFindMoment \<Rightarrow> int \<times> int \<Rightarrow> FootprintFindMoment" where
  "FootprintFindMoment_call f p =
     (let r = pixelRadius f (fst p) (snd p);
          ival = imageAt (fmImage f) (fst p) (snd p)
      in f\<lparr>fmSum := fmSum f + ival, fmSumR := fmSumR f + r * ival\<rparr>)"

text \<open>
  \<open>FootprintFunctor::apply\<close>: \<open>reset(foot)\<close>, then \<open>operator()\<close> on every pixel in
  turn. The footprint of \<open>determine\<close> is built without a region
  (\<open>Footprint(Ellipse(axes, center))\<close>), so the test of the region in the base class
  is not made, and \<open>reset(foot)\<close> is the test there is.
\<close>

definition FootprintFindMoment_apply ::
  "FootprintFindMoment \<Rightarrow> Footprint \<Rightarrow> Exception + FootprintFindMoment" where
  "FootprintFindMoment_apply f foot =
     (case FootprintFindMoment_reset f foot of
        Inl e \<Rightarrow> Inl e
      | Inr f1 \<Rightarrow> Inr (foldl FootprintFindMoment_call f1 (pixels foot)))"

definition getIr :: "FootprintFindMoment \<Rightarrow> real" where
  "getIr f = fmSumR f / fmSum f"

definition getGood :: "FootprintFindMoment \<Rightarrow> bool" where
  "getGood f = (fmSum f > 0 \<and> fmSumR f > 0)"

subsection \<open>FootprintFlux\<close>

record FootprintFlux =
  ffImage :: MaskedImage
  ffSum :: real
  ffSumVar :: real

definition FootprintFlux_new :: "MaskedImage \<Rightarrow> FootprintFlux" where
  "FootprintFlux_new mimage = \<lparr>ffImage = mimage, ffSum = 0, ffSumVar = 0\<rparr>"

text \<open>\<open>operator()\<close>: called for each pixel by \<open>apply\<close>.\<close>

definition FootprintFlux_call :: "FootprintFlux \<Rightarrow> int \<times> int \<Rightarrow> FootprintFlux" where
  "FootprintFlux_call f p =
     (let ival = imageAt (ffImage f) (fst p) (snd p);
          vval = varianceAt (ffImage f) (fst p) (snd p)
      in f\<lparr>ffSum := ffSum f + ival, ffSumVar := ffSumVar f + vval\<rparr>)"

text \<open>
  \<open>apply\<close> of the base class \<open>afw::detection::FootprintFunctor\<close>, for a footprint
  built with a region (\<open>Footprint(ellipse, region)\<close> keeps the region and does not clip
  to it): \<open>reset()\<close> clears the sums, \<open>reset(foot)\<close> does nothing; a footprint without
  pixels ends there; a footprint whose region is not empty and does not contain both
  corners of its bounding box throws \<open>LengthError\<close>; otherwise \<open>operator()\<close> is
  called on every pixel in turn.
\<close>

definition FootprintFlux_apply ::
  "FootprintFlux \<Rightarrow> Footprint \<Rightarrow> Box2I \<Rightarrow> Exception + FootprintFlux" where
  "FootprintFlux_apply f foot region =
     (let f1 = f\<lparr>ffSum := 0, ffSumVar := 0\<rparr>;
          bbox = getBBox foot
      in if pixels foot = [] then Inr f1
         else if \<not> isEmpty region \<and>
                 (\<not> contains region (boxMinX bbox, boxMinY bbox) \<or>
                  \<not> contains region (getMaxX bbox, getMaxY bbox))
         then Inl (LSST_EXCEPT LengthError ''Footprint doesn't fit in image'')
         else Inr (foldl FootprintFlux_call f1 (pixels foot)))"

definition getSum :: "FootprintFlux \<Rightarrow> real" where
  "getSum f = ffSum f"

definition getSumVar :: "FootprintFlux \<Rightarrow> real" where
  "getSumVar f = ffSumVar f"

subsection \<open>Control, source record, aperture\<close>

text \<open>
  Modelled from the spec: \<open>KronFluxControl\<close> is declared in the header
  \<open>photometryKron.h\<close>, which is not among the sources. Its fields are the configuration
  of the specification (growth factor per iteration, maximum iteration count,
  smoothing width, multiplier of the final aperture, threshold between the two flux
  integrations, minimum radius and the flag enforcing it, the flag widening the shape by
  the footprint, the flag for a fixed aperture), under the names \<open>KronPhotometry.cc\<close>
  reads them by.
\<close>

record KronFluxControl =
  nSigmaForRadius :: real
  nIterForRadius :: int
  smoothingSigma :: real
  nRadiusForFlux :: real
  maxSincRadius :: real
  minimumRadius :: real
  enforceMinimumRadius :: bool
  useFootprintRadius :: bool
  fixed :: bool

text \<open>
  The source record: what the algorithm reads of the source (position, shape, shape
  flag, the shape of its detection footprint) and the fields it writes.
\<close>

record SourceRecord =
  getX :: real
  getY :: real
  getShape :: Axes
  getShapeFlag :: bool
  getFootprintShape :: Axes
  fluxMeas :: "real option"
  fluxErr :: "real option"
  fluxFlag :: bool
  radiusKey :: "real option"
  radiusForRadiusKey :: "real option"
  edgeKey :: bool
  badRadiusKey :: bool
  smallRadiusKey :: bool
  usedMinimumRadiusKey :: bool
  usedPsfRadiusKey :: bool
  psfRadiusKey :: "real option"
  badShapeKey :: bool

record KronAperture =
  getCenter :: Point2D
  getAxes :: Axes

text \<open>\<open>KronAperture(source)\<close>.\<close>

definition KronAperture_ofSource :: "SourceRecord \<Rightarrow> KronAperture" where
  "KronAperture_ofSource source =
     \<lparr>getCenter = (getX source, getY source), getAxes = getShape source\<rparr>"

subsection \<open>KronAperture::determine\<close>

text \<open>
  The image an iteration measures the moment on (lines 381 to 388): the view of the
  footprint's box (grown by the kernel when smoothing) clipped to the image, convolved
  when smoothing. An exception of the convolution leaves \<open>determine\<close>.
\<close>

definition measuredImage ::
  "Env \<Rightarrow> MaskedImage \<Rightarrow> KronFluxControl \<Rightarrow> Footprint \<Rightarrow> Exception + MaskedImage" where
  "measuredImage env mimage ctrl foot =
     (let sigma = smoothingSigma ctrl;
          smoothImage = (sigma > 0);
          kSize = (if smoothImage then 2 * \<lfloor>2 * sigma\<rfloor> + 1 else 1);
          bbox = clip (if \<not> smoothImage then getBBox foot else growBBox kSize (getBBox foot))
                      (imageBBox mimage);
          subImage = subImageOf mimage bbox
      in if smoothImage
         then (case convolve env subImage sigma kSize of
                 Inl e \<Rightarrow> Inl e
               | Inr planes \<Rightarrow> Inr (subImage\<lparr>imageAt := fst planes, varianceAt := snd planes\<rparr>))
         else Inr subImage)"

text \<open>
  One pass through the body of the \<open>for\<close> loop, from the axes and \<open>radius0\<close> it starts
  with. It ends in a \<open>throw\<close>, in a \<open>break\<close> (with the axes as they are then) or at the
  end of the body (with the rescaled axes and the new \<open>radius0\<close>); the second component
  is the value written to \<open>*radiusForRadius\<close>. In the handler of \<open>OutOfRangeError\<close> the
  message is added to the exception when \<open>i = 0\<close>, and the exception is dropped by the
  \<open>break\<close>.
\<close>

datatype IterOutcome = Throw Exception | Break Axes | Next Axes real

definition determine_iter ::
  "Env \<Rightarrow> MaskedImage \<Rightarrow> KronFluxControl \<Rightarrow> Point2D \<Rightarrow> int \<Rightarrow> Axes \<Rightarrow> real
     \<Rightarrow> IterOutcome \<times> real" where
  "determine_iter env mimage ctrl center i axes0 radius0 =
     (let axes = scale (nSigmaForRadius ctrl) axes0;
          radiusForRadius = getDeterminantRadius axes;
          foot = footprintOfEllipse env axes center
      in case measuredImage env mimage ctrl foot of
           Inl e \<Rightarrow> (Throw e, radiusForRadius)
         | Inr subImage \<Rightarrow>
             (case FootprintFindMoment_apply
                     (FootprintFindMoment_new subImage center (getA axes / getB axes)
                        (getTheta axes)) foot of
                Inl e \<Rightarrow>
                  if excType e = OutOfRangeError
                  then (let e1 = (if i = 0 then LSST_EXCEPT_ADD e ''Determining Kron aperture''
                                  else e)
                        in (Break axes, radiusForRadius))
                  else (Throw e, radiusForRadius)
              | Inr iRFunctor \<Rightarrow>
                  if \<not> getGood iRFunctor
                  then (Throw (LSST_EXCEPT BadKronException ''Bad integral defining Kron radius''),
                        radiusForRadius)
                  else
                    let radius = getIr iRFunctor * sqrt (getB axes / getA axes)
                    in if radius \<le> radius0 then (Break axes, radiusForRadius)
                       else (Next (scale (radius / getDeterminantRadius axes) axes) radius,
                             radiusForRadius)))"

text \<open>
  The loop \<open>for (int i = 0; i < ctrl.nIterForRadius; ++i)\<close>. Beside the result and the
  last value of \<open>*radiusForRadius\<close> it returns the history of the variable \<open>radius0\<close>:
  the values assigned to it by \<open>radius0 = radius\<close>, in order.
\<close>

function determine_loop ::
  "Env \<Rightarrow> MaskedImage \<Rightarrow> KronFluxControl \<Rightarrow> Point2D \<Rightarrow> int \<Rightarrow> Axes \<Rightarrow> real
     \<Rightarrow> real option \<Rightarrow> real list \<Rightarrow> (Exception + Axes) \<times> real option \<times> real list" where
  "determine_loop env mimage ctrl center i axes radius0 rfr hist =
     (if i < nIterForRadius ctrl
      then (case determine_iter env mimage ctrl center i axes radius0 of
              (Throw e, r) \<Rightarrow> (Inl e, Some r, hist)
            | (Break axes1, r) \<Rightarrow> (Inr axes1, Some r, hist)
            | (Next axes1 radius, r) \<Rightarrow>
                determine_loop env mimage ctrl center (i + 1) axes1 radius (Some r)
                  (hist @ [radius]))
      else (Inr axes, rfr, hist))"
  by pat_completeness auto
termination
  by (relation "measure (\<lambda>(env, mimage, ctrl, center, i, axes, radius0, rfr, hist).
                  nat (nIterForRadius ctrl - i))") auto

declare determine_loop.simps [simp del]

text \<open>
  \<open>KronAperture::determine\<close>. The second component is \<open>*radiusForRadius\<close> when the
  function is left, also when it is left by an exception.
\<close>

definition KronAperture_determine ::
  "Env \<Rightarrow> MaskedImage \<Rightarrow> Axes \<Rightarrow> Point2D \<Rightarrow> KronFluxControl \<Rightarrow> real option
     \<Rightarrow> (Exception + KronAperture) \<times> real option" where
  "KronAperture_determine env mimage axes center ctrl radiusForRadius =
     (let radius0 = getDeterminantRadius axes;
          res = determine_loop env mimage ctrl center 0 axes radius0 radiusForRadius []
      in (case fst res of
            Inl e \<Rightarrow> Inl e
          | Inr axes1 \<Rightarrow> Inr \<lparr>getCenter = center, getAxes = axes1\<rparr>,
          fst (snd res)))"

text \<open>The values \<open>radius0\<close> takes after its initial one, in order.\<close>

definition determine_radii ::
  "Env \<Rightarrow> MaskedImage \<Rightarrow> Axes \<Rightarrow> Point2D \<Rightarrow> KronFluxControl \<Rightarrow> real list" where
  "determine_radii env mimage axes center ctrl =
     snd (snd (determine_loop env mimage ctrl center 0 axes (getDeterminantRadius axes) None []))"

subsection \<open>photometer, calculatePsfKronRadius, KronAperture::measure\<close>

text \<open>
  \<open>photometer\<close>: the aperture is the ellipse \<open>(axes, center)\<close>. The footprint of
  the summation is \<open>Footprint(aperture, image.getBBox())\<close>, so its region is the box
  of the image, and a \<open>LengthError\<close> of \<open>fluxFunctor.apply\<close> leaves \<open>photometer\<close>
  as it is, the call standing outside the \<open>try\<close>. The message added to a
  \<open>LengthError\<close> of the sinc primitive formats the position and the axes; the model
  keeps its fixed part.
\<close>

definition photometer ::
  "Env \<Rightarrow> MaskedImage \<Rightarrow> Axes \<Rightarrow> Point2D \<Rightarrow> real \<Rightarrow> Exception + (real \<times> real)" where
  "photometer env mimage axes center maxSinc =
     (if getB axes > maxSinc
      then (let foot = footprintOfEllipse env axes center
            in case FootprintFlux_apply (FootprintFlux_new mimage) foot (imageBBox mimage) of
                 Inl e \<Rightarrow> Inl e
               | Inr fluxFunctor \<Rightarrow> Inr (getSum fluxFunctor, sqrt (getSumVar fluxFunctor)))
      else (case calculateSincApertureFlux env mimage axes center of
              Inr res \<Rightarrow> Inr res
            | Inl e \<Rightarrow>
                if excType e = LengthError
                then Inl (LSST_EXCEPT_ADD e ''Measuring Kron flux for object'')
                else Inl e))"

definition calculatePsfKronRadius :: "Psf \<Rightarrow> Point2D \<Rightarrow> real \<Rightarrow> real" where
  "calculatePsfKronRadius psf center sigma =
     (let radius = getDeterminantRadius (computeShape psf center)
      in sqrt (pi / 2) * hypot radius (max 0 sigma))"

text \<open>
  \<open>KronAperture::measure\<close>, with the aperture it is called on returned beside the
  result, as the object is after the call.
\<close>

definition KronAperture_measure ::
  "Env \<Rightarrow> MaskedImage \<Rightarrow> real \<Rightarrow> real \<Rightarrow> KronAperture
     \<Rightarrow> (Exception + (real \<times> real)) \<times> KronAperture" where
  "KronAperture_measure env mimage nRadius maxSinc this =
     (let axes = getAxes this;
          axes1 = scale nRadius axes
      in (photometer env mimage axes1 (getCenter this) maxSinc, this))"

subsection \<open>KronFlux\<close>

text \<open>\<open>std::numeric_limits<double>::epsilon()\<close>.\<close>

definition epsilon :: real where
  "epsilon = 1 / 2 ^ 52"

text \<open>
  \<open>KronFlux::_applyAperture\<close>: the exception it throws if any, the source record and
  the aperture when it is left.
\<close>

definition KronFlux_applyAperture ::
  "Env \<Rightarrow> KronFluxControl \<Rightarrow> SourceRecord \<Rightarrow> Exposure \<Rightarrow> KronAperture
     \<Rightarrow> Exception option \<times> SourceRecord \<times> KronAperture" where
  "KronFlux_applyAperture env ctrl source exposure aperture =
     (let rad = getDeterminantRadius (getAxes aperture)
      in if rad < epsilon
         then (Some (LSST_EXCEPT UnderflowError ''Kron radius is < epsilon for source''),
               source\<lparr>badRadiusKey := True\<rparr>, aperture)
         else
           (case KronAperture_measure env (getMaskedImage exposure) (nRadiusForFlux ctrl)
                   (maxSincRadius ctrl) aperture of
              (Inl e, aperture1) \<Rightarrow>
                if excType e = LengthError
                then (Some e, source\<lparr>fluxFlag := True, edgeKey := True\<rparr>, aperture1)
                else (Some e, source, aperture1)
            | (Inr result, aperture1) \<Rightarrow>
                (None,
                 source\<lparr>fluxMeas := Some (fst result), fluxErr := Some (snd result),
                        radiusKey := Some (getDeterminantRadius (getAxes aperture1))\<rparr>,
                 aperture1)))"

text \<open>
  \<open>KronFlux::_fallbackRadius\<close>: the aperture or the exception thrown, and the source
  record. Its parameter \<open>exc\<close> is a \<open>pex::exceptions::Exception&\<close>, and the last
  branch ends in \<open>throw exc;\<close>.
\<close>

definition KronFlux_fallbackRadius ::
  "KronFluxControl \<Rightarrow> SourceRecord \<Rightarrow> real \<Rightarrow> Exception
     \<Rightarrow> (Exception + KronAperture) \<times> SourceRecord" where
  "KronFlux_fallbackRadius ctrl source R_K_psf exc =
     (let source1 = source\<lparr>badRadiusKey := True\<rparr>;
          rescaled = (\<lambda>newRadius src.
             let aperture = KronAperture_ofSource src
             in aperture\<lparr>getAxes :=
                  scale (newRadius / getDeterminantRadius (getAxes aperture)) (getAxes aperture)\<rparr>)
      in if minimumRadius ctrl > 0
         then (let source2 = source1\<lparr>usedMinimumRadiusKey := True\<rparr>
               in (Inr (rescaled (minimumRadius ctrl) source2), source2))
         else if R_K_psf > 0
         then (let source2 = source1\<lparr>usedPsfRadiusKey := True\<rparr>
               in (Inr (rescaled R_K_psf source2), source2))
         else (Inl (throwByBaseReference
                      (LSST_EXCEPT_ADD exc
                         ''Bad Kron aperture, no minimum radius specified, and no PSF'')),
               source1))"

text \<open>
  \<open>KronFlux::_apply\<close>, in the order of its text. First the flags are initialised
  (lines 558 to 563) and the Kron radius of the PSF is computed (573 to 576).
\<close>

definition initFlags :: "SourceRecord \<Rightarrow> SourceRecord" where
  "initFlags source =
     source\<lparr>fluxFlag := True, badRadiusKey := False, smallRadiusKey := False,
            badShapeKey := False, usedMinimumRadiusKey := False, usedPsfRadiusKey := False\<rparr>"

definition psfKronRadius :: "KronFluxControl \<Rightarrow> Exposure \<Rightarrow> Point2D \<Rightarrow> real" where
  "psfKronRadius ctrl exposure center =
     (case getPsf exposure of
        None \<Rightarrow> - 1
      | Some psf \<Rightarrow> calculatePsfKronRadius psf center (smoothingSigma ctrl))"

text \<open>
  The shape of the desired aperture (lines 581 to 591): the axes, the local \<open>bad\<close> and
  the source record, or the exception.
\<close>

definition selectShape ::
  "SourceRecord \<Rightarrow> Exposure \<Rightarrow> (Exception + (Axes \<times> bool)) \<times> SourceRecord" where
  "selectShape source exposure =
     (if \<not> getShapeFlag source then (Inr (getShape source, False), source)
      else (case getPsf exposure of
              None \<Rightarrow> (Inl (LSST_EXCEPT RuntimeError ''Bad shape and no PSF''), source)
            | Some psf \<Rightarrow>
                (Inr (computeShape psf (getAveragePosition psf), True),
                 source\<lparr>badShapeKey := True\<rparr>)))"

text \<open>The widening by the radius of the footprint (lines 592 to 605).\<close>

definition useFootprint :: "KronFluxControl \<Rightarrow> SourceRecord \<Rightarrow> Axes \<Rightarrow> Axes" where
  "useFootprint ctrl source axes =
     (if useFootprintRadius ctrl
      then (let footprintAxes = scale (sqrt 2) (getFootprintShape source);
                radius0 = getDeterminantRadius axes;
                footRadius = getDeterminantRadius footprintAxes
            in if footRadius > radius0 * nSigmaForRadius ctrl
               then (let radius1 = footRadius / nSigmaForRadius ctrl
                     in scale (radius1 / getDeterminantRadius axes) axes)
               else axes)
      else axes)"

text \<open>
  The aperture (lines 607 to 626): the aperture and \<open>bad\<close>, or the exception that
  leaves \<open>_apply\<close>; the source record; the local \<open>radiusForRadius\<close>.
\<close>

definition findAperture ::
  "Env \<Rightarrow> KronFluxControl \<Rightarrow> SourceRecord \<Rightarrow> Exposure \<Rightarrow> Point2D \<Rightarrow> Axes \<Rightarrow> bool \<Rightarrow> real
     \<Rightarrow> (Exception + (KronAperture \<times> bool)) \<times> SourceRecord \<times> real option" where
  "findAperture env ctrl source exposure center axes bad R_K_psf =
     (if fixed ctrl then (Inr (KronAperture_ofSource source, bad), source, None)
      else
        (case KronAperture_determine env (getMaskedImage exposure) axes center ctrl None of
           (Inr aperture, radiusForRadius) \<Rightarrow> (Inr (aperture, bad), source, radiusForRadius)
         | (Inl e, radiusForRadius) \<Rightarrow>
             if excType e = OutOfRangeError
             then (Inl e, source\<lparr>edgeKey := True, fluxFlag := True\<rparr>, radiusForRadius)
             else if excType e = BadKronException
             then (case KronFlux_fallbackRadius ctrl source R_K_psf e of
                     (Inl e1, source1) \<Rightarrow> (Inl e1, source1, radiusForRadius)
                   | (Inr aperture, source1) \<Rightarrow> (Inr (aperture, bad), source1, radiusForRadius))
             else (case KronFlux_fallbackRadius ctrl source R_K_psf e of
                     (Inl e1, source1) \<Rightarrow> (Inl e1, source1, radiusForRadius)
                   | (Inr aperture, source1) \<Rightarrow>
                       (Inr (aperture, True), source1, radiusForRadius))))"

text \<open>The constraints on the minimum radius (lines 632 to 652).\<close>

definition enforceMinimum ::
  "KronFluxControl \<Rightarrow> SourceRecord \<Rightarrow> Exposure \<Rightarrow> real \<Rightarrow> KronAperture
     \<Rightarrow> (Exception + KronAperture) \<times> SourceRecord" where
  "enforceMinimum ctrl source exposure R_K_psf aperture =
     (let rad = getDeterminantRadius (getAxes aperture)
      in if enforceMinimumRadius ctrl
         then
           (case (if minimumRadius ctrl > 0
                  then (if rad < minimumRadius ctrl
                        then Inr (minimumRadius ctrl, source\<lparr>usedMinimumRadiusKey := True\<rparr>)
                        else Inr (rad, source))
                  else if getPsf exposure = None
                  then Inl (LSST_EXCEPT RuntimeError ''No minimum radius and no PSF provided'')
                  else if rad < R_K_psf
                  then Inr (R_K_psf, source\<lparr>usedPsfRadiusKey := True\<rparr>)
                  else Inr (rad, source)) of
              Inl e \<Rightarrow> (Inl e, source)
            | Inr (newRadius, source1) \<Rightarrow>
                if newRadius \<noteq> rad
                then (Inr (aperture\<lparr>getAxes := scale (newRadius / rad) (getAxes aperture)\<rparr>),
                      source1\<lparr>smallRadiusKey := True\<rparr>)
                else (Inr aperture, source1))
         else (Inr aperture, source))"

text \<open>\<open>_apply\<close>: the exception that leaves it if any, and the source record.\<close>

definition KronFlux_apply ::
  "Env \<Rightarrow> KronFluxControl \<Rightarrow> SourceRecord \<Rightarrow> Exposure \<Rightarrow> Point2D
     \<Rightarrow> Exception option \<times> SourceRecord" where
  "KronFlux_apply env ctrl source exposure center =
     (let source0 = initFlags source;
          R_K_psf = psfKronRadius ctrl exposure center
      in case selectShape source0 exposure of
           (Inl e, source1) \<Rightarrow> (Some e, source1)
         | (Inr (axes0, bad0), source1) \<Rightarrow>
             (let axes = useFootprint ctrl source1 axes0
              in case findAperture env ctrl source1 exposure center axes bad0 R_K_psf of
                   (Inl e, source2, radiusForRadius) \<Rightarrow> (Some e, source2)
                 | (Inr (aperture, bad), source2, radiusForRadius) \<Rightarrow>
                     (case enforceMinimum ctrl source2 exposure R_K_psf aperture of
                        (Inl e, source3) \<Rightarrow> (Some e, source3)
                      | (Inr aperture1, source3) \<Rightarrow>
                          (case KronFlux_applyAperture env ctrl source3 exposure aperture1 of
                             (Some e, source4, aperture2) \<Rightarrow> (Some e, source4)
                           | (None, source4, aperture2) \<Rightarrow>
                               (None,
                                source4\<lparr>radiusForRadiusKey := radiusForRadius,
                                        psfRadiusKey := Some R_K_psf,
                                        fluxFlag := bad\<rparr>)))))"

subsection \<open>Observers of \<open>_apply\<close>\<close>

text \<open>
  The call of \<open>KronAperture::determine\<close> that \<open>_apply\<close> makes (line 613) and what it
  returns, when \<open>_apply\<close> gets that far and the aperture is not fixed.
\<close>

definition solverOutcome ::
  "Env \<Rightarrow> KronFluxControl \<Rightarrow> SourceRecord \<Rightarrow> Exposure \<Rightarrow> Point2D
     \<Rightarrow> ((Exception + KronAperture) \<times> real option) option" where
  "solverOutcome env ctrl source exposure center =
     (case selectShape (initFlags source) exposure of
        (Inl e, source1) \<Rightarrow> None
      | (Inr (axes0, bad0), source1) \<Rightarrow>
          if fixed ctrl then None
          else Some (KronAperture_determine env (getMaskedImage exposure)
                       (useFootprint ctrl source1 axes0) center ctrl None))"

text \<open>
  The state of \<open>_apply\<close> when it reaches the constraints on the minimum radius (line
  632): the aperture, the local \<open>bad\<close>, the source record and the local
  \<open>radiusForRadius\<close>.
\<close>

definition candidateAperture ::
  "Env \<Rightarrow> KronFluxControl \<Rightarrow> SourceRecord \<Rightarrow> Exposure \<Rightarrow> Point2D
     \<Rightarrow> (KronAperture \<times> bool \<times> SourceRecord \<times> real option) option" where
  "candidateAperture env ctrl source exposure center =
     (case selectShape (initFlags source) exposure of
        (Inl e, source1) \<Rightarrow> None
      | (Inr (axes0, bad0), source1) \<Rightarrow>
          (case findAperture env ctrl source1 exposure center (useFootprint ctrl source1 axes0)
                  bad0 (psfKronRadius ctrl exposure center) of
             (Inl e, source2, r) \<Rightarrow> None
           | (Inr (aperture, bad), source2, r) \<Rightarrow> Some (aperture, bad, source2, r)))"

subsection \<open>The moment as the specification words it\<close>

text \<open>
  The elliptical radius of the pixel \<open>(x, y)\<close> for the centre \<open>(x0, y0)\<close>, the axis
  ratio and the orientation, following the text of the specification: the offset rotated
  into the frame of the ellipse, \<open>r = hypot(u, v * ab)\<close>, and the correction within half
  a pixel of the centre.
\<close>

definition spec_elliptical_radius :: "real \<Rightarrow> real \<Rightarrow> real \<Rightarrow> real \<Rightarrow> int \<Rightarrow> int \<Rightarrow> real" where
  "spec_elliptical_radius x0 y0 abr theta x y =
     (let dx = real_of_int x - x0;
          dy = real_of_int y - y0;
          u = dx * cos theta + dy * sin theta;
          v = - dx * sin theta + dy * cos theta;
          r = hypot u (v * abr);
          e = 0.38259771140356325
      in if hypot dx dy < 0.5 then hypot r (e * (1 + hypot dx dy / sqrt 2)) else r)"

text \<open>The test of \<open>reset(foot)\<close>, as a predicate: the box of the footprint lies in the image.\<close>

definition fits :: "Footprint \<Rightarrow> MaskedImage \<Rightarrow> bool" where
  "fits foot mimage =
     (getX0 mimage \<le> boxMinX (getBBox foot) \<and> getY0 mimage \<le> boxMinY (getBBox foot) \<and>
      getMaxX (getBBox foot) < getX0 mimage + getWidth mimage \<and>
      getMaxY (getBBox foot) < getY0 mimage + getHeight mimage)"

subsection \<open>Concrete inputs\<close>

text \<open>
  A pixel-centre rasteriser for ellipses with \<open>theta = 0\<close>, in the place of
  \<open>afw::detection::Footprint(Ellipse)\<close>: the pixels whose centre lies in the ellipse,
  row by row, and their bounding box.
\<close>

definition rasterise :: "Axes \<Rightarrow> Point2D \<Rightarrow> Footprint" where
  "rasterise axes c =
     (let x0 = \<lceil>fst c - getA axes\<rceil>; x1 = \<lfloor>fst c + getA axes\<rfloor>;
          y0 = \<lceil>snd c - getB axes\<rceil>; y1 = \<lfloor>snd c + getB axes\<rfloor>
      in \<lparr>pixels = concat (map (\<lambda>y. filter (\<lambda>p. ((real_of_int (fst p) - fst c) / getA axes)\<^sup>2 +
                                       ((real_of_int (snd p) - snd c) / getB axes)\<^sup>2 \<le> 1)
                                  (map (\<lambda>x. (x, y)) [x0..x1])) [y0..y1]),
          getBBox = \<lparr>boxMinX = x0, boxMinY = y0, boxWidth = x1 - x0 + 1, boxHeight = y1 - y0 + 1\<rparr>\<rparr>)"

text \<open>
  Three images of 3 by 3 pixels with unit variance: one with all its flux in the pixel
  \<open>(2, 1)\<close>, one with all its flux in the central pixel \<open>(1, 1)\<close>, one without flux.
\<close>

definition deltaImage :: MaskedImage where
  "deltaImage = \<lparr>imageAt = (\<lambda>x y. if x = 2 \<and> y = 1 then 1 else 0), varianceAt = (\<lambda>x y. 1),
                  getX0 = 0, getY0 = 0, getWidth = 3, getHeight = 3\<rparr>"

definition centreImage :: MaskedImage where
  "centreImage = \<lparr>imageAt = (\<lambda>x y. if x = 1 \<and> y = 1 then 1 else 0), varianceAt = (\<lambda>x y. 1),
                  getX0 = 0, getY0 = 0, getWidth = 3, getHeight = 3\<rparr>"

definition nullImage :: MaskedImage where
  "nullImage = \<lparr>imageAt = (\<lambda>x y. 0), varianceAt = (\<lambda>x y. 1),
                  getX0 = 0, getY0 = 0, getWidth = 3, getHeight = 3\<rparr>"

text \<open>
  A control with two iterations that double the ellipse, no smoothing and an aperture
  for the flux of twice the Kron radius; the enforcement of the minimum radius and the
  minimum radius are its parameters.
\<close>

definition testCtrl :: "bool \<Rightarrow> real \<Rightarrow> KronFluxControl" where
  "testCtrl enforce minimum =
     \<lparr>nSigmaForRadius = 2, nIterForRadius = 2, smoothingSigma = 0, nRadiusForFlux = 2,
      maxSincRadius = 10, minimumRadius = minimum, enforceMinimumRadius = enforce,
      useFootprintRadius = False, fixed = False\<rparr>"

definition testAxes :: Axes where
  "testAxes = \<lparr>getA = 1/2, getB = 1/2, getTheta = 0\<rparr>"

text \<open>
  An environment whose sinc primitive reports the flux 0 with uncertainty 1, and one
  whose sinc primitive finds that the aperture does not fit.
\<close>

definition testEnv :: Env where
  "testEnv = \<lparr>footprintOfEllipse = rasterise,
               convolve = (\<lambda>im s k. Inr (imageAt im, varianceAt im)),
               calculateSincApertureFlux = (\<lambda>im ax c. Inr (0, 1))\<rparr>"

definition edgeEnv :: Env where
  "edgeEnv = \<lparr>footprintOfEllipse = rasterise,
               convolve = (\<lambda>im s k. Inr (imageAt im, varianceAt im)),
               calculateSincApertureFlux =
                 (\<lambda>im ax c. Inl (LSST_EXCEPT LengthError ''Aperture does not fit in image''))\<rparr>"

definition testPsf :: Psf where
  "testPsf = \<lparr>computeShape = (\<lambda>p. testAxes), getAveragePosition = (1, 1)\<rparr>"

definition testSource :: "bool \<Rightarrow> SourceRecord" where
  "testSource shapeFlag =
     \<lparr>getX = 1, getY = 1, getShape = testAxes, getShapeFlag = shapeFlag,
      getFootprintShape = testAxes, fluxMeas = None, fluxErr = None, fluxFlag = False,
      radiusKey = None, radiusForRadiusKey = None, edgeKey = False, badRadiusKey = False,
      smallRadiusKey = False, usedMinimumRadiusKey = False, usedPsfRadiusKey = False,
      psfRadiusKey = None, badShapeKey = False\<rparr>"

definition testExposure :: "MaskedImage \<Rightarrow> Exposure" where
  "testExposure mimage = \<lparr>getMaskedImage = mimage, getPsf = Some testPsf\<rparr>"

definition noPsfExposure :: "MaskedImage \<Rightarrow> Exposure" where
  "noPsfExposure mimage = \<lparr>getMaskedImage = mimage, getPsf = None\<rparr>"

text \<open>The Kron radius of the test PSF.\<close>

definition testR :: real where "testR = sqrt (pi / 2) / 2"

section \<open>Properties\<close>

subsection \<open>Axes\<close>

lemma detRadius_scale:
  "0 \<le> s \<Longrightarrow> getDeterminantRadius (scale s axes) = s * getDeterminantRadius axes"
proof -
  assume s: "0 \<le> s"
  have "getA axes * s * (getB axes * s) = (s * s) * (getA axes * getB axes)"
    by (simp add: algebra_simps)
  then show ?thesis
    using s by (simp add: getDeterminantRadius_def scale_def real_sqrt_mult)
qed

lemma detRadius_rescale:
  assumes "0 < getDeterminantRadius axes" "0 \<le> r"
  shows "getDeterminantRadius (scale (r / getDeterminantRadius axes) axes) = r"
  using assms by (simp add: detRadius_scale)

lemma detRadius_scale_abs:
  "getDeterminantRadius (scale s axes) = \<bar>s\<bar> * getDeterminantRadius axes"
proof -
  have "getA axes * s * (getB axes * s) = (s * s) * (getA axes * getB axes)"
    by (simp add: algebra_simps)
  then show ?thesis
    by (simp add: getDeterminantRadius_def scale_def real_sqrt_mult)
qed

lemma scale_scale: "scale k (scale j axes) = scale (j * k) axes"
  by (simp add: scale_def mult.assoc)

lemma detRadius_pos: "0 < getA axes \<Longrightarrow> 0 < getB axes \<Longrightarrow> 0 < getDeterminantRadius axes"
  by (simp add: getDeterminantRadius_def)

lemma scale_pos: "0 < k \<Longrightarrow> 0 < getA axes \<Longrightarrow> 0 < getB axes \<Longrightarrow>
   0 < getA (scale k axes) \<and> 0 < getB (scale k axes)"
  by (simp add: scale_def)

lemma hypot_0_right [simp]: "hypot x 0 = \<bar>x\<bar>"
  by (simp add: hypot_def)

lemma hypot_0_left [simp]: "hypot 0 y = \<bar>y\<bar>"
  by (simp add: hypot_def)

subsection \<open>The functors\<close>

lemma pixelRadius_new:
  "pixelRadius (f\<lparr>fmSum := s, fmSumR := t\<rparr>) x y = pixelRadius f x y"
  by (simp add: pixelRadius_def)

lemma call_unfold:
  "FootprintFindMoment_call f p =
     f\<lparr>fmSum := fmSum f + imageAt (fmImage f) (fst p) (snd p),
        fmSumR := fmSumR f + pixelRadius f (fst p) (snd p) * imageAt (fmImage f) (fst p) (snd p)\<rparr>"
  by (simp add: FootprintFindMoment_call_def Let_def)

lemma foldl_call_fields:
  "foldl FootprintFindMoment_call f ps =
     f\<lparr>fmSum := fmSum f + (\<Sum>p\<leftarrow>ps. imageAt (fmImage f) (fst p) (snd p)),
        fmSumR := fmSumR f + (\<Sum>p\<leftarrow>ps. pixelRadius f (fst p) (snd p) * imageAt (fmImage f) (fst p) (snd p))\<rparr>"
proof (induction ps arbitrary: f)
  case Nil
  show ?case by simp
next
  case (Cons p ps)
  have "foldl FootprintFindMoment_call f (p # ps) =
          foldl FootprintFindMoment_call (FootprintFindMoment_call f p) ps"
    by simp
  also have "\<dots> = (FootprintFindMoment_call f p)
      \<lparr>fmSum := fmSum (FootprintFindMoment_call f p) +
         (\<Sum>q\<leftarrow>ps. imageAt (fmImage (FootprintFindMoment_call f p)) (fst q) (snd q)),
       fmSumR := fmSumR (FootprintFindMoment_call f p) +
         (\<Sum>q\<leftarrow>ps. pixelRadius (FootprintFindMoment_call f p) (fst q) (snd q) *
            imageAt (fmImage (FootprintFindMoment_call f p)) (fst q) (snd q))\<rparr>"
    by (rule Cons.IH)
  also have "\<dots> = f
      \<lparr>fmSum := fmSum f + (\<Sum>q\<leftarrow>p # ps. imageAt (fmImage f) (fst q) (snd q)),
       fmSumR := fmSumR f +
         (\<Sum>q\<leftarrow>p # ps. pixelRadius f (fst q) (snd q) * imageAt (fmImage f) (fst q) (snd q))\<rparr>"
    by (simp add: call_unfold pixelRadius_new add.assoc)
  finally show ?case .
qed

lemma pixelRadius_spec:
  "pixelRadius (FootprintFindMoment_new mimage (x0, y0) abr theta) x y =
     spec_elliptical_radius x0 y0 abr theta x y"
  by (simp add: pixelRadius_def spec_elliptical_radius_def FootprintFindMoment_new_def ROOT2_def Let_def)

lemma apply_eq:
  "FootprintFindMoment_apply (FootprintFindMoment_new mimage (x0, y0) abr theta) foot =
     (if fits foot mimage then
        Inr ((FootprintFindMoment_new mimage (x0, y0) abr theta)
          \<lparr>fmSum := (\<Sum>p\<leftarrow>pixels foot. imageAt mimage (fst p) (snd p)),
           fmSumR := (\<Sum>p\<leftarrow>pixels foot. spec_elliptical_radius x0 y0 abr theta (fst p) (snd p) * imageAt mimage (fst p) (snd p))\<rparr>)
      else Inl (LSST_EXCEPT OutOfRangeError ''Footprint doesn't fit in image''))"
  unfolding FootprintFindMoment_apply_def FootprintFindMoment_reset_def fits_def
  apply (simp add: Let_def foldl_call_fields pixelRadius_new pixelRadius_spec not_le not_less)
  apply (auto simp add: FootprintFindMoment_new_def)
  done


lemma foldl_flux_fields:
  "foldl FootprintFlux_call f ps =
     f\<lparr>ffSum := ffSum f + (\<Sum>p\<leftarrow>ps. imageAt (ffImage f) (fst p) (snd p)),
        ffSumVar := ffSumVar f + (\<Sum>p\<leftarrow>ps. varianceAt (ffImage f) (fst p) (snd p))\<rparr>"
proof (induction ps arbitrary: f)
  case Nil
  show ?case by simp
next
  case (Cons p ps)
  have "foldl FootprintFlux_call f (p # ps) = foldl FootprintFlux_call (FootprintFlux_call f p) ps"
    by simp
  also have "\<dots> = (FootprintFlux_call f p)
      \<lparr>ffSum := ffSum (FootprintFlux_call f p) +
         (\<Sum>q\<leftarrow>ps. imageAt (ffImage (FootprintFlux_call f p)) (fst q) (snd q)),
       ffSumVar := ffSumVar (FootprintFlux_call f p) +
         (\<Sum>q\<leftarrow>ps. varianceAt (ffImage (FootprintFlux_call f p)) (fst q) (snd q))\<rparr>"
    by (rule Cons.IH)
  also have "\<dots> = f
      \<lparr>ffSum := ffSum f + (\<Sum>q\<leftarrow>p # ps. imageAt (ffImage f) (fst q) (snd q)),
       ffSumVar := ffSumVar f + (\<Sum>q\<leftarrow>p # ps. varianceAt (ffImage f) (fst q) (snd q))\<rparr>"
    by (simp add: FootprintFlux_call_def Let_def add.assoc)
  finally show ?case .
qed

lemma flux_apply_eq:
  "FootprintFlux_apply (FootprintFlux_new mimage) foot region =
     (if pixels foot = [] \<or> isEmpty region \<or>
         (contains region (boxMinX (getBBox foot), boxMinY (getBBox foot)) \<and>
          contains region (getMaxX (getBBox foot), getMaxY (getBBox foot)))
      then Inr ((FootprintFlux_new mimage)
                 \<lparr>ffSum := (\<Sum>p\<leftarrow>pixels foot. imageAt mimage (fst p) (snd p)),
                  ffSumVar := (\<Sum>p\<leftarrow>pixels foot. varianceAt mimage (fst p) (snd p))\<rparr>)
      else Inl (LSST_EXCEPT LengthError ''Footprint doesn't fit in image''))"
  by (auto simp add: FootprintFlux_apply_def Let_def foldl_flux_fields FootprintFlux_new_def)

subsection \<open>The loop of \<open>determine\<close>\<close>


lemma iter_valid:
  assumes "measuredImage env mimage ctrl (footprintOfEllipse env (scale (nSigmaForRadius ctrl) axes0) center) = Inr sub"
    and "FootprintFindMoment_apply
           (FootprintFindMoment_new sub center
              (getA (scale (nSigmaForRadius ctrl) axes0) / getB (scale (nSigmaForRadius ctrl) axes0))
              (getTheta (scale (nSigmaForRadius ctrl) axes0)))
           (footprintOfEllipse env (scale (nSigmaForRadius ctrl) axes0) center) = Inr f"
    and "getGood f"
  shows "determine_iter env mimage ctrl center i axes0 radius0 =
           (let trial = scale (nSigmaForRadius ctrl) axes0;
                radius = getIr f * sqrt (getB trial / getA trial)
            in if radius \<le> radius0 then (Break trial, getDeterminantRadius trial)
               else (Next (scale (radius / getDeterminantRadius trial) trial) radius,
                     getDeterminantRadius trial))"
  using assms by (simp add: determine_iter_def Let_def)

lemma iter_Next:
  "determine_iter env mimage ctrl center i axes0 radius0 = (Next axes1 radius, r) \<Longrightarrow>
     radius0 < radius \<and>
     axes1 = scale (radius / getDeterminantRadius (scale (nSigmaForRadius ctrl) axes0))
               (scale (nSigmaForRadius ctrl) axes0)"
  by (auto simp: determine_iter_def Let_def split: sum.splits if_splits)

lemma iter_Break:
  "determine_iter env mimage ctrl center i axes0 radius0 = (Break axes1, r) \<Longrightarrow>
     axes1 = scale (nSigmaForRadius ctrl) axes0"
  by (auto simp: determine_iter_def Let_def split: sum.splits if_splits)

lemma loop_history:
  "\<exists>new. snd (snd (determine_loop env mimage ctrl center i axes radius0 rfr hist)) = hist @ new \<and>
         sorted_wrt (<) (radius0 # new) \<and> int (length new) \<le> max 0 (nIterForRadius ctrl - i)"
proof (induction env mimage ctrl center i axes radius0 rfr hist rule: determine_loop.induct)
  case (1 env mimage ctrl center i axes radius0 rfr hist)
  show ?case
  proof (cases "i < nIterForRadius ctrl")
    case False
    then show ?thesis by (subst determine_loop.simps) simp
  next
    case True
    obtain out r where it: "determine_iter env mimage ctrl center i axes radius0 = (out, r)"
      by (cases "determine_iter env mimage ctrl center i axes radius0")
    show ?thesis
    proof (cases out)
      case (Throw e)
      with True it show ?thesis by (subst determine_loop.simps) simp
    next
      case (Break a1)
      with True it show ?thesis by (subst determine_loop.simps) simp
    next
      case (Next a1 rad)
      from "1.IH" [OF True it [symmetric, unfolded Next] refl] obtain new where
        new: "snd (snd (determine_loop env mimage ctrl center (i + 1) a1 rad (Some r) (hist @ [rad])))
                = (hist @ [rad]) @ new"
          "sorted_wrt (<) (rad # new)" "int (length new) \<le> max 0 (nIterForRadius ctrl - (i + 1))"
        by blast
      have lt: "radius0 < rad" using iter_Next [OF it [unfolded Next]] by simp
      have "snd (snd (determine_loop env mimage ctrl center i axes radius0 rfr hist)) = hist @ (rad # new)"
        using True it Next new(1) by (subst determine_loop.simps) simp
      moreover have "sorted_wrt (<) (radius0 # rad # new)"
        using new(2) lt by auto
      moreover have "int (length (rad # new)) \<le> max 0 (nIterForRadius ctrl - i)"
        using new(3) True by simp
      ultimately show ?thesis by blast
    qed
  qed
qed

lemma loop_shape:
  "0 < nSigmaForRadius ctrl \<Longrightarrow> 0 < getA axes \<Longrightarrow> 0 < getB axes \<Longrightarrow> 0 \<le> radius0 \<Longrightarrow>
   fst (determine_loop env mimage ctrl center i axes radius0 rfr hist) = Inr axes1 \<Longrightarrow>
   \<exists>k>0. axes1 = scale k axes"
proof (induction env mimage ctrl center i axes radius0 rfr hist rule: determine_loop.induct)
  case (1 env mimage ctrl center i axes radius0 rfr hist)
  show ?case
  proof (cases "i < nIterForRadius ctrl")
    case False
    with "1.prems"(5) have "axes1 = axes" by (subst (asm) determine_loop.simps) simp
    then have "axes1 = scale 1 axes" by (simp add: scale_def)
    then show ?thesis by (intro exI [of _ 1]) simp
  next
    case True
    obtain out r where it: "determine_iter env mimage ctrl center i axes radius0 = (out, r)"
      by (cases "determine_iter env mimage ctrl center i axes radius0")
    show ?thesis
    proof (cases out)
      case (Throw e)
      with True it "1.prems"(5) show ?thesis by (subst (asm) determine_loop.simps) simp
    next
      case (Break a1)
      with True it "1.prems"(5) have "axes1 = a1" by (subst (asm) determine_loop.simps) simp
      with iter_Break [OF it [unfolded Break]] "1.prems"(1) show ?thesis by blast
    next
      case (Next a1 rad)
      let ?trial = "scale (nSigmaForRadius ctrl) axes"
      from iter_Next [OF it [unfolded Next]] have
        lt: "radius0 < rad" and a1: "a1 = scale (rad / getDeterminantRadius ?trial) ?trial"
        by simp_all
      have tp: "0 < getA ?trial \<and> 0 < getB ?trial"
        using scale_pos "1.prems"(1-3) by blast
      then have dp: "0 < getDeterminantRadius ?trial" by (simp add: detRadius_pos)
      have kp: "0 < rad / getDeterminantRadius ?trial" using lt "1.prems"(4) dp by simp
      have a1p: "0 < getA a1 \<and> 0 < getB a1" unfolding a1 using scale_pos kp tp by blast
      have res: "fst (determine_loop env mimage ctrl center (i + 1) a1 rad (Some r) (hist @ [rad])) = Inr axes1"
        using True it Next "1.prems"(5) by (subst (asm) determine_loop.simps) simp
      from "1.IH" [OF True it [symmetric, unfolded Next] refl "1.prems"(1) _ _ _ res] a1p lt "1.prems"(4)
      obtain k where k: "0 < k" "axes1 = scale k a1" by auto
      have "axes1 = scale (nSigmaForRadius ctrl * (rad / getDeterminantRadius ?trial) * k) axes"
        unfolding k(2) a1 by (simp add: scale_scale)
      moreover have "0 < nSigmaForRadius ctrl * (rad / getDeterminantRadius ?trial) * k"
        using "1.prems"(1) kp k(1) by (intro mult_pos_pos)
      ultimately show ?thesis by blast
    qed
  qed
qed

lemma determine_shape:
  assumes "0 < nSigmaForRadius ctrl" "0 < getA axes" "0 < getB axes"
    and "KronAperture_determine env mimage axes center ctrl rfr = (Inr ap, r)"
  shows "getB (getAxes ap) / getA (getAxes ap) = getB axes / getA axes \<and>
         getTheta (getAxes ap) = getTheta axes \<and> getCenter ap = center"
proof -
  obtain res r1 h where l: "determine_loop env mimage ctrl center 0 axes (getDeterminantRadius axes) rfr [] = (res, r1, h)"
    by (metis prod_cases3)
  from assms(4) l obtain a1 where a1: "res = Inr a1" "ap = \<lparr>getCenter = center, getAxes = a1\<rparr>"
    by (auto simp: KronAperture_determine_def Let_def split: sum.splits)
  have "0 \<le> getDeterminantRadius axes"
    using detRadius_pos [OF assms(2,3)] by simp
  from loop_shape [OF assms(1-3) this, of env mimage center 0 rfr "[]" a1] l a1
  obtain k where "0 < k" "a1 = scale k axes" by auto
  with a1 show ?thesis by (simp add: scale_def)
qed

subsection \<open>The stages of \<open>_apply\<close>\<close>

lemma fallbackRadius_cases:
  "KronFlux_fallbackRadius ctrl source R_K_psf exc =
     (if 0 < minimumRadius ctrl
      then (Inr \<lparr>getCenter = (getX source, getY source),
                 getAxes = scale (minimumRadius ctrl / getDeterminantRadius (getShape source))
                             (getShape source)\<rparr>,
            source\<lparr>badRadiusKey := True, usedMinimumRadiusKey := True\<rparr>)
      else if 0 < R_K_psf
      then (Inr \<lparr>getCenter = (getX source, getY source),
                 getAxes = scale (R_K_psf / getDeterminantRadius (getShape source))
                             (getShape source)\<rparr>,
            source\<lparr>badRadiusKey := True, usedPsfRadiusKey := True\<rparr>)
      else (Inl (exc\<lparr>excType := PexException,
                     messages := messages exc @
                       [''Bad Kron aperture, no minimum radius specified, and no PSF'']\<rparr>),
            source\<lparr>badRadiusKey := True\<rparr>))"
  by (simp add: KronFlux_fallbackRadius_def Let_def KronAperture_ofSource_def LSST_EXCEPT_ADD_def
        throwByBaseReference_def)

lemma selectShape_used:
  "selectShape source exposure = (res, source1) \<Longrightarrow>
     usedMinimumRadiusKey source1 = usedMinimumRadiusKey source \<and>
     usedPsfRadiusKey source1 = usedPsfRadiusKey source"
  by (auto simp: selectShape_def split: if_splits option.splits)

lemma fallback_used:
  "KronFlux_fallbackRadius ctrl source R e = (res, source1) \<Longrightarrow>
     (if 0 < minimumRadius ctrl
      then usedPsfRadiusKey source1 = usedPsfRadiusKey source
      else usedMinimumRadiusKey source1 = usedMinimumRadiusKey source)"
  by (auto simp: KronFlux_fallbackRadius_def Let_def split: if_splits)

lemma findAperture_used:
  "findAperture env ctrl source exposure center axes bad R = (res, source1, r) \<Longrightarrow>
     (if 0 < minimumRadius ctrl
      then usedPsfRadiusKey source1 = usedPsfRadiusKey source
      else usedMinimumRadiusKey source1 = usedMinimumRadiusKey source)"
  unfolding findAperture_def
  by (auto split: if_splits prod.splits sum.splits dest: fallback_used)

lemma enforceMinimum_used:
  "enforceMinimum ctrl source exposure R aperture = (res, source1) \<Longrightarrow>
     (if 0 < minimumRadius ctrl
      then usedPsfRadiusKey source1 = usedPsfRadiusKey source
      else usedMinimumRadiusKey source1 = usedMinimumRadiusKey source)"
  unfolding enforceMinimum_def
  by (auto simp: Let_def split: if_splits)

lemma applyAperture_used:
  "KronFlux_applyAperture env ctrl source exposure aperture = (res, source1, aperture1) \<Longrightarrow>
     usedMinimumRadiusKey source1 = usedMinimumRadiusKey source \<and>
     usedPsfRadiusKey source1 = usedPsfRadiusKey source"
  unfolding KronFlux_applyAperture_def KronAperture_measure_def
  by (auto simp: Let_def split: if_splits sum.splits)

lemma apply_used:
  "KronFlux_apply env ctrl source exposure center = (res, source1) \<Longrightarrow>
     (if 0 < minimumRadius ctrl then \<not> usedPsfRadiusKey source1 else \<not> usedMinimumRadiusKey source1)"
proof -
  assume run: "KronFlux_apply env ctrl source exposure center = (res, source1)"
  obtain r1 s1 where sel: "selectShape (initFlags source) exposure = (r1, s1)"
    by (cases "selectShape (initFlags source) exposure")
  have s1: "\<not> usedMinimumRadiusKey s1 \<and> \<not> usedPsfRadiusKey s1"
    using selectShape_used [OF sel] by (simp add: initFlags_def)
  show ?thesis
  proof (cases r1)
    case (Inl e)
    with run sel s1 show ?thesis by (auto simp add: KronFlux_apply_def Let_def split: if_splits)
  next
    case (Inr ab0)
    obtain axes0 bad0 where ab0: "ab0 = (axes0, bad0)" by (cases ab0)
    obtain r2 s2 rfr where fa: "findAperture env ctrl s1 exposure center (useFootprint ctrl s1 axes0)
        bad0 (psfKronRadius ctrl exposure center) = (r2, s2, rfr)"
      by (metis prod_cases3)
    have s2: "if 0 < minimumRadius ctrl then \<not> usedPsfRadiusKey s2 else \<not> usedMinimumRadiusKey s2"
      using findAperture_used [OF fa] s1 by (simp split: if_splits)
    show ?thesis
    proof (cases r2)
      case (Inl e)
      with run sel Inr ab0 fa s2 show ?thesis by (auto simp add: KronFlux_apply_def Let_def split: if_splits)
    next
      case (Inr apb)
      obtain ap bad where apb: "apb = (ap, bad)" by (cases apb)
      obtain r3 s3 where en: "enforceMinimum ctrl s2 exposure (psfKronRadius ctrl exposure center) ap = (r3, s3)"
        by (cases "enforceMinimum ctrl s2 exposure (psfKronRadius ctrl exposure center) ap")
      have s3: "if 0 < minimumRadius ctrl then \<not> usedPsfRadiusKey s3 else \<not> usedMinimumRadiusKey s3"
        using enforceMinimum_used [OF en] s2 by (simp split: if_splits)
      show ?thesis
      proof (cases r3)
        case (Inl e)
        with run sel \<open>r1 = Inr ab0\<close> ab0 fa Inr apb en s3 show ?thesis
          by (auto simp add: KronFlux_apply_def Let_def split: if_splits)
      next
        case (Inr ap1)
        obtain r4 s4 ap2 where aa: "KronFlux_applyAperture env ctrl s3 exposure ap1 = (r4, s4, ap2)"
          by (metis prod_cases3)
        have s4: "if 0 < minimumRadius ctrl then \<not> usedPsfRadiusKey s4 else \<not> usedMinimumRadiusKey s4"
          using applyAperture_used [OF aa] s3 by (simp split: if_splits)
        from run sel \<open>r1 = Inr ab0\<close> ab0 fa \<open>r2 = Inr apb\<close> apb en Inr aa s4 show ?thesis
          by (cases r4) (auto simp add: KronFlux_apply_def Let_def split: if_splits)
      qed
    qed
  qed
qed

lemma apply_no_candidate:
  "candidateAperture env ctrl source exposure center = None \<Longrightarrow>
     fst (KronFlux_apply env ctrl source exposure center) \<noteq> None"
  unfolding candidateAperture_def KronFlux_apply_def
  by (auto simp: Let_def split: prod.splits sum.splits)

lemma apply_candidate:
  "candidateAperture env ctrl source exposure center = Some (ap, bad, s2, rfr) \<Longrightarrow>
     KronFlux_apply env ctrl source exposure center =
       (case enforceMinimum ctrl s2 exposure (psfKronRadius ctrl exposure center) ap of
          (Inl e, s3) \<Rightarrow> (Some e, s3)
        | (Inr ap1, s3) \<Rightarrow>
            (case KronFlux_applyAperture env ctrl s3 exposure ap1 of
               (Some e, s4, ap2) \<Rightarrow> (Some e, s4)
             | (None, s4, ap2) \<Rightarrow>
                 (None, s4\<lparr>radiusForRadiusKey := rfr,
                           psfRadiusKey := Some (psfKronRadius ctrl exposure center),
                           fluxFlag := bad\<rparr>)))"
  unfolding candidateAperture_def KronFlux_apply_def
  by (auto simp: Let_def split: prod.splits sum.splits)

lemma apply_completes:
  assumes "KronFlux_apply env ctrl source exposure center = (None, s')"
  shows "\<exists>ap bad s2 rfr ap1 s3 s4 ap2.
           candidateAperture env ctrl source exposure center = Some (ap, bad, s2, rfr) \<and>
           enforceMinimum ctrl s2 exposure (psfKronRadius ctrl exposure center) ap = (Inr ap1, s3) \<and>
           KronFlux_applyAperture env ctrl s3 exposure ap1 = (None, s4, ap2) \<and>
           s' = s4\<lparr>radiusForRadiusKey := rfr,
                    psfRadiusKey := Some (psfKronRadius ctrl exposure center),
                    fluxFlag := bad\<rparr>"
proof (cases "candidateAperture env ctrl source exposure center")
  case None
  from apply_no_candidate [OF None] assms show ?thesis by simp
next
  case (Some c)
  obtain ap bad s2 rfr where c: "c = (ap, bad, s2, rfr)" by (metis prod_cases4)
  from assms apply_candidate [OF Some [unfolded c]] show ?thesis
    unfolding Some c
    by (auto split: prod.splits sum.splits option.splits)
qed

lemma candidate_bad:
  assumes "candidateAperture env ctrl source exposure center = Some (ap, bad, s2, rfr)"
  shows "bad = (getShapeFlag source \<or>
                (\<exists>e r. solverOutcome env ctrl source exposure center = Some (Inl e, r) \<and>
                       excType e \<noteq> BadKronException))"
  using assms
  unfolding candidateAperture_def solverOutcome_def findAperture_def selectShape_def
  by (auto simp: initFlags_def split: prod.splits sum.splits option.splits if_splits)

lemma applyAperture_flux:
  "KronFlux_applyAperture env ctrl s3 exposure ap1 = (None, s4, ap2) \<Longrightarrow>
     fluxMeas s4 \<noteq> None \<and> fluxErr s4 \<noteq> None"
  unfolding KronFlux_applyAperture_def KronAperture_measure_def
  by (auto simp: Let_def split: if_splits sum.splits)

lemma enforceMinimum_keeps:
  "enforceMinimum ctrl source exposure R aperture = (res, source1) \<Longrightarrow>
     (badRadiusKey source \<longrightarrow> badRadiusKey source1) \<and>
     (usedPsfRadiusKey source \<longrightarrow> usedPsfRadiusKey source1)"
  unfolding enforceMinimum_def
  by (auto simp: Let_def split: if_splits)

lemma applyAperture_keeps:
  "KronFlux_applyAperture env ctrl source exposure aperture = (res, source1, aperture1) \<Longrightarrow>
     (badRadiusKey source \<longrightarrow> badRadiusKey source1) \<and>
     (usedPsfRadiusKey source \<longrightarrow> usedPsfRadiusKey source1)"
  unfolding KronFlux_applyAperture_def KronAperture_measure_def
  by (auto simp: Let_def split: if_splits sum.splits)

lemma candidate_keeps:
  assumes c: "candidateAperture env ctrl source exposure center = Some (ap, bad, s2, rfr)"
    and f: "badRadiusKey s2" "usedPsfRadiusKey s2"
  shows "badRadiusKey (snd (KronFlux_apply env ctrl source exposure center)) \<and>
         usedPsfRadiusKey (snd (KronFlux_apply env ctrl source exposure center))"
proof -
  obtain r3 s3 where en: "enforceMinimum ctrl s2 exposure (psfKronRadius ctrl exposure center) ap = (r3, s3)"
    by (cases "enforceMinimum ctrl s2 exposure (psfKronRadius ctrl exposure center) ap")
  from enforceMinimum_keeps [OF en] f have s3: "badRadiusKey s3" "usedPsfRadiusKey s3" by simp_all
  show ?thesis
  proof (cases r3)
    case (Inl e)
    with apply_candidate [OF c] en s3 show ?thesis by simp
  next
    case (Inr ap1)
    obtain r4 s4 ap2 where aa: "KronFlux_applyAperture env ctrl s3 exposure ap1 = (r4, s4, ap2)"
      by (metis prod_cases3)
    from applyAperture_keeps [OF aa] s3 have "badRadiusKey s4" "usedPsfRadiusKey s4" by simp_all
    with apply_candidate [OF c] en Inr aa show ?thesis by (cases r4) simp_all
  qed
qed

lemma candidate_bad_kron:
  assumes so: "solverOutcome env ctrl source exposure center = Some (Inl e, rfr)"
    and bk: "excType e = BadKronException"
    and nm: "\<not> 0 < minimumRadius ctrl"
    and ps: "0 < psfKronRadius ctrl exposure center"
  shows "\<exists>s2. candidateAperture env ctrl source exposure center =
           Some (\<lparr>getCenter = (getX source, getY source),
                  getAxes = scale (psfKronRadius ctrl exposure center /
                                     getDeterminantRadius (getShape source)) (getShape source)\<rparr>,
                 getShapeFlag source, s2, rfr) \<and> badRadiusKey s2 \<and> usedPsfRadiusKey s2"
  using assms
  unfolding solverOutcome_def candidateAperture_def findAperture_def selectShape_def
    KronFlux_fallbackRadius_def
  by (auto simp: Let_def initFlags_def KronAperture_ofSource_def
      split: if_splits option.splits prod.splits sum.splits)

subsection \<open>Evaluation on the concrete inputs\<close>

lemma sqrt_quarter: "sqrt (1/4) = 1/2"
  by (rule real_sqrt_unique) (simp_all add: power2_eq_square)

lemma upto_0_2: "[0..2::int] = [0,1,2]"
  by (simp add: upto.simps)
lemma ceiling_m1: "\<lceil>- 1 :: real\<rceil> = - 1"
  by (simp add: ceiling_eq_iff)

lemma raster1: "rasterise \<lparr>getA = 1, getB = 1, getTheta = 0\<rparr> (1, 1) =
   \<lparr>pixels = [(1,0),(0,1),(1,1),(2,1),(1,2)], getBBox = \<lparr>boxMinX = 0, boxMinY = 0, boxWidth = 3, boxHeight = 3\<rparr>\<rparr>"
  by (simp add: rasterise_def Let_def upto_0_2)

lemma raster2: "getBBox (rasterise \<lparr>getA = 2, getB = 2, getTheta = 0\<rparr> (1, 1)) =
   \<lparr>boxMinX = -1, boxMinY = -1, boxWidth = 5, boxHeight = 5\<rparr>"
  by (simp add: rasterise_def Let_def ceiling_m1)

lemma upto_m1_3: "[- 1..3::int] = [- 1, 0, 1, 2, 3]"
  by (simp add: upto.simps)

lemma raster2_pixels:
  "pixels (rasterise \<lparr>getA = 2, getB = 2, getTheta = 0\<rparr> (1, 1)) =
     [(1, - 1), (0, 0), (1, 0), (2, 0), (- 1, 1), (0, 1), (1, 1), (2, 1), (3, 1),
      (0, 2), (1, 2), (2, 2), (1, 3)]"
  by (simp add: rasterise_def Let_def ceiling_m1 upto_m1_3 power2_eq_square)

lemma image_box_delta:
  "imageBBox deltaImage = \<lparr>boxMinX = 0, boxMinY = 0, boxWidth = 3, boxHeight = 3\<rparr>"
  by (simp add: imageBBox_def deltaImage_def)

lemmas scenario_defs = testCtrl_def testAxes_def testEnv_def deltaImage_def nullImage_def centreImage_def
lemmas geometry_defs = scale_def getDeterminantRadius_def measuredImage_def clip_def isEmpty_def
  imageBBox_def getMaxX_def getMaxY_def subImageOf_def fits_def

lemma iter0_delta: "determine_iter testEnv deltaImage (testCtrl en mn) (1,1) 0 testAxes (1/2) =
    (Next \<lparr>getA = 1, getB = 1, getTheta = 0\<rparr> 1, 1)"
  by (simp add: determine_iter_def scenario_defs geometry_defs Let_def raster1
       apply_eq getGood_def getIr_def spec_elliptical_radius_def)

lemma iter1_delta: "determine_iter testEnv deltaImage (testCtrl en mn) (1,1) 1 \<lparr>getA = 1, getB = 1, getTheta = 0\<rparr> 1 =
    (Break \<lparr>getA = 2, getB = 2, getTheta = 0\<rparr>, 2)"
  by (simp add: determine_iter_def scenario_defs geometry_defs Let_def raster2
       apply_eq LSST_EXCEPT_def)

lemma loop_delta: "determine_loop testEnv deltaImage (testCtrl en mn) (1,1) 0 testAxes (1/2) None [] =
    (Inr \<lparr>getA = 2, getB = 2, getTheta = 0\<rparr>, Some 2, [1])"
  apply (subst determine_loop.simps)
  apply (simp add: iter0_delta)
  apply (simp add: testCtrl_def)
  apply (subst determine_loop.simps)
  apply (simp add: iter1_delta [unfolded testCtrl_def] )
  done

lemma detRadius_testAxes: "getDeterminantRadius testAxes = 1/2"
  by (simp add: getDeterminantRadius_def testAxes_def sqrt_quarter)

lemma determine_delta: "KronAperture_determine testEnv deltaImage testAxes (1,1) (testCtrl en mn) None =
    (Inr \<lparr>getCenter = (1,1), getAxes = \<lparr>getA = 2, getB = 2, getTheta = 0\<rparr>\<rparr>, Some 2)"
  by (simp add: KronAperture_determine_def detRadius_testAxes loop_delta)

lemma iter0_null: "determine_iter testEnv nullImage (testCtrl en mn) (1,1) 0 testAxes (1/2) =
    (Throw (LSST_EXCEPT BadKronException ''Bad integral defining Kron radius''), 1)"
  by (simp add: determine_iter_def scenario_defs geometry_defs Let_def raster1
       apply_eq getGood_def)

lemma determine_null: "KronAperture_determine testEnv nullImage testAxes (1,1) (testCtrl en mn) None =
    (Inl (LSST_EXCEPT BadKronException ''Bad integral defining Kron radius''), Some 1)"
  apply (simp add: KronAperture_determine_def detRadius_testAxes)
  apply (subst determine_loop.simps)
  apply (simp add: iter0_null)
  apply (simp add: testCtrl_def)
  done

lemma iter0_centre: "determine_iter testEnv centreImage (testCtrl en mn) (1,1) 0 testAxes (1/2) =
    (Break \<lparr>getA = 1, getB = 1, getTheta = 0\<rparr>, 1)"
  by (simp add: determine_iter_def scenario_defs geometry_defs Let_def raster1
       apply_eq getGood_def getIr_def spec_elliptical_radius_def)

lemma testR_bounds: "1/2 \<le> testR" "testR < 1"
proof -
  have "1 \<le> pi / 2" using pi_ge_two by simp
  then have "sqrt 1 \<le> sqrt (pi / 2)" by (simp only: real_sqrt_le_iff)
  then show "1/2 \<le> testR" by (simp add: testR_def)
  have "pi / 2 < 4" using pi_less_4 by simp
  then have "sqrt (pi / 2) < sqrt 4" by (simp only: real_sqrt_less_iff)
  then show "testR < 1" by (simp add: testR_def)
qed

lemma psfKronRadius_test: "psfKronRadius (testCtrl en mn) (testExposure mimage) c = testR"
  by (simp add: psfKronRadius_def testExposure_def calculatePsfKronRadius_def testPsf_def
      detRadius_testAxes testCtrl_def testR_def)

lemma epsilon_small: "epsilon < 1/2"
  by (simp add: epsilon_def)

lemma selectShape_test:
  "selectShape (initFlags (testSource flag)) (testExposure mimage) =
     (Inr (testAxes, flag), (initFlags (testSource flag))\<lparr>badShapeKey := flag\<rparr>)"
  by (simp add: selectShape_def initFlags_def testSource_def testExposure_def testPsf_def)

lemma fallback_test:
  "KronFlux_fallbackRadius (testCtrl en 0) ((initFlags (testSource flag))\<lparr>badShapeKey := flag\<rparr>) testR e =
     (Inr \<lparr>getCenter = (1,1), getAxes = \<lparr>getA = testR, getB = testR, getTheta = 0\<rparr>\<rparr>,
      (initFlags (testSource flag))\<lparr>badShapeKey := flag, badRadiusKey := True, usedPsfRadiusKey := True\<rparr>)"
  using testR_bounds
  by (simp add: KronFlux_fallbackRadius_def testCtrl_def Let_def KronAperture_ofSource_def
        initFlags_def testSource_def detRadius_testAxes) (simp add: scale_def testAxes_def)

lemma candidate_null:
  "candidateAperture testEnv (testCtrl en 0) (testSource flag) (testExposure nullImage) (1,1) =
     Some (\<lparr>getCenter = (1,1), getAxes = \<lparr>getA = testR, getB = testR, getTheta = 0\<rparr>\<rparr>, flag,
           (initFlags (testSource flag))\<lparr>badShapeKey := flag, badRadiusKey := True, usedPsfRadiusKey := True\<rparr>,
           Some 1)"
proof -
  have u: "useFootprint (testCtrl en 0) s a = a" for s a by (simp add: useFootprint_def testCtrl_def)
  have f: "fixed (testCtrl en 0) = False" by (simp add: testCtrl_def)
  have m: "getMaskedImage (testExposure nullImage) = nullImage" by (simp add: testExposure_def)
  show ?thesis
    by (simp add: candidateAperture_def selectShape_test psfKronRadius_test u findAperture_def f m
        determine_null LSST_EXCEPT_def fallback_test)
qed

lemma detRadius_R: "getDeterminantRadius \<lparr>getA = testR, getB = testR, getTheta = 0\<rparr> = testR"
  using testR_bounds by (simp add: getDeterminantRadius_def)

lemma photometer_null:
  "photometer testEnv nullImage \<lparr>getA = testR * 2, getB = testR * 2, getTheta = 0\<rparr> (1, 1) 10 =
     Inr (0, 1)"
  using testR_bounds by (simp add: photometer_def testEnv_def)

lemma applyAperture_null:
  "KronFlux_applyAperture testEnv (testCtrl en mn) s (testExposure nullImage)
     \<lparr>getCenter = (1, 1), getAxes = \<lparr>getA = testR, getB = testR, getTheta = 0\<rparr>\<rparr> =
   (None, s\<lparr>fluxMeas := Some 0, fluxErr := Some 1, radiusKey := Some testR\<rparr>,
    \<lparr>getCenter = (1, 1), getAxes = \<lparr>getA = testR, getB = testR, getTheta = 0\<rparr>\<rparr>)"
  using testR_bounds epsilon_small
  by (simp add: KronFlux_applyAperture_def detRadius_R KronAperture_measure_def Let_def
        testExposure_def testCtrl_def scale_def photometer_null)

lemma apply_null:
  "KronFlux_apply testEnv (testCtrl False 0) (testSource flag) (testExposure nullImage) (1, 1) =
     (None, (testSource flag)\<lparr>fluxMeas := Some 0, fluxErr := Some 1, fluxFlag := flag,
        radiusKey := Some testR, radiusForRadiusKey := Some 1, badRadiusKey := True,
        usedPsfRadiusKey := True, psfRadiusKey := Some testR, badShapeKey := flag\<rparr>)"
proof -
  have e: "enforceMinimum (testCtrl False 0) s (testExposure nullImage) r a = (Inr a, s)" for s r a
    by (simp add: enforceMinimum_def testCtrl_def)
  show ?thesis
    by (simp add: apply_candidate [OF candidate_null] e applyAperture_null psfKronRadius_test)
       (simp add: initFlags_def testSource_def)
qed




lemma measured_delta1:
  "measuredImage testEnv deltaImage (testCtrl en mn)
     (rasterise \<lparr>getA = 1, getB = 1, getTheta = 0\<rparr> (1, 1)) = Inr deltaImage"
  by (simp add: scenario_defs geometry_defs Let_def raster1)

lemma measured_centre1:
  "measuredImage testEnv centreImage (testCtrl en mn)
     (rasterise \<lparr>getA = 1, getB = 1, getTheta = 0\<rparr> (1, 1)) = Inr centreImage"
  by (simp add: scenario_defs geometry_defs Let_def raster1)

lemma trial_first:
  "scale (nSigmaForRadius (testCtrl en mn)) testAxes = \<lparr>getA = 1, getB = 1, getTheta = 0\<rparr>"
  by (simp add: testCtrl_def testAxes_def scale_def)

lemma moment_delta:
  "FootprintFindMoment_apply (FootprintFindMoment_new deltaImage (1, 1) 1 0)
     (rasterise \<lparr>getA = 1, getB = 1, getTheta = 0\<rparr> (1, 1)) =
   Inr ((FootprintFindMoment_new deltaImage (1, 1) 1 0)\<lparr>fmSum := 1, fmSumR := 1\<rparr>)"
  by (simp add: apply_eq raster1 fits_def deltaImage_def getMaxX_def getMaxY_def
      spec_elliptical_radius_def)

lemma moment_centre:
  "FootprintFindMoment_apply (FootprintFindMoment_new centreImage (1, 1) 1 0)
     (rasterise \<lparr>getA = 1, getB = 1, getTheta = 0\<rparr> (1, 1)) =
   Inr ((FootprintFindMoment_new centreImage (1, 1) 1 0)
          \<lparr>fmSum := 1, fmSumR := 0.38259771140356325\<rparr>)"
  by (simp add: apply_eq raster1 fits_def centreImage_def getMaxX_def getMaxY_def
      spec_elliptical_radius_def)

lemma sqrt_sixteenth: "sqrt (1/16) = 1/4"
  by (rule real_sqrt_unique) (simp_all add: power2_eq_square)

lemma candidate_delta_noPsf:
  "candidateAperture testEnv (testCtrl en mn) (testSource False) (noPsfExposure deltaImage) (1, 1) =
     Some (\<lparr>getCenter = (1, 1), getAxes = \<lparr>getA = 2, getB = 2, getTheta = 0\<rparr>\<rparr>, False,
           initFlags (testSource False), Some 2)"
proof -
  have u: "useFootprint (testCtrl en mn) s a = a" for s a by (simp add: useFootprint_def testCtrl_def)
  have f: "fixed (testCtrl en mn) = False" by (simp add: testCtrl_def)
  have m: "getMaskedImage (noPsfExposure deltaImage) = deltaImage" by (simp add: noPsfExposure_def)
  have sel: "selectShape (initFlags (testSource False)) (noPsfExposure deltaImage) =
      (Inr (testAxes, False), initFlags (testSource False))"
    by (simp add: selectShape_def initFlags_def testSource_def)
  show ?thesis
    by (simp add: candidateAperture_def sel u findAperture_def f m determine_delta)
qed

lemma solverOutcome_null:
  "solverOutcome testEnv (testCtrl en mn) (testSource flag) (testExposure nullImage) (1, 1) =
     Some (Inl (LSST_EXCEPT BadKronException ''Bad integral defining Kron radius''), Some 1)"
proof -
  have u: "useFootprint (testCtrl en mn) s a = a" for s a by (simp add: useFootprint_def testCtrl_def)
  have f: "fixed (testCtrl en mn) = False" by (simp add: testCtrl_def)
  have m: "getMaskedImage (testExposure nullImage) = nullImage" by (simp add: testExposure_def)
  show ?thesis
    by (simp add: solverOutcome_def selectShape_test u f m determine_null)
qed

section \<open>The claims\<close>

subsection \<open>C1\<close>




subsection \<open>C2\<close>

text \<open>
  C2. \<open>KronFlux::_fallbackRadius\<close> follows the order of the claim and sets the flags
  it names (\<open>fallbackRadius_cases\<close>), but what it throws in the last case is not the
  exception it was given. With no positive minimum radius and no positive PSF radius, a
  \<open>BadKronException\<close> handed to it leaves it, by \<open>throw exc;\<close> on a reference to the
  base class, as an exception of the base class \<open>pex::exceptions::Exception\<close>: the
  messages and the added context are there, the class is lost. The bad-radius flag is
  set, and no aperture is returned.
\<close>

theorem fallbackRadius_rethrow_loses_class:
  "excType (LSST_EXCEPT BadKronException ''Bad integral defining Kron radius'') = BadKronException \<and>
   KronFlux_fallbackRadius (testCtrl False 0) (testSource False) (- 1)
     (LSST_EXCEPT BadKronException ''Bad integral defining Kron radius'') =
     (Inl \<lparr>excType = PexException,
           messages = [''Bad integral defining Kron radius'',
                       ''Bad Kron aperture, no minimum radius specified, and no PSF'']\<rparr>,
      (testSource False)\<lparr>badRadiusKey := True\<rparr>)"
  by (simp add: fallbackRadius_cases testCtrl_def LSST_EXCEPT_def)

subsection \<open>C3\<close>

text \<open>
  C3. However \<open>KronFlux::_apply\<close> ends, by returning or by throwing, the source
  record never has both the minimum-radius-used flag and the PSF-radius-used flag set:
  the fallback and the constraints on the minimum radius test \<open>minimumRadius > 0\<close> the
  same way, and both flags are cleared on entry.
\<close>

theorem apply_used_flags_exclusive:
  "\<not> (usedMinimumRadiusKey (snd (KronFlux_apply env ctrl source exposure center)) \<and>
      usedPsfRadiusKey (snd (KronFlux_apply env ctrl source exposure center)))"
  using apply_used [of env ctrl source exposure center]
  by (cases "KronFlux_apply env ctrl source exposure center") (auto split: if_splits)

subsection \<open>C4\<close>

text \<open>
  C4. In an iteration of the loop of \<open>determine\<close> whose moment is good, the new
  estimate is the mean elliptical radius times \<open>sqrt(b/a)\<close> of the trial axes, which
  is the ratio of the axes the iteration started from since scaling is uniform; the loop
  ends with the trial axes when the estimate is at most \<open>radius0\<close>, and otherwise
  continues with \<open>i + 1\<close>, the estimate as \<open>radius0\<close> and the trial axes rescaled to
  it. The loop ends when \<open>i\<close> reaches \<open>nIterForRadius\<close>. So the values taken by
  \<open>radius0\<close>, from its initial one on, increase strictly, there are at most
  \<open>nIterForRadius\<close> of them after the first, and the aperture returned has the axis
  ratio and the orientation of the axes given.
\<close>

theorem determine_radius_update:
  "(i < nIterForRadius ctrl \<longrightarrow>
      measuredImage env mimage ctrl (footprintOfEllipse env (scale (nSigmaForRadius ctrl) axes0) center) = Inr sub \<longrightarrow>
      FootprintFindMoment_apply
           (FootprintFindMoment_new sub center
              (getA (scale (nSigmaForRadius ctrl) axes0) / getB (scale (nSigmaForRadius ctrl) axes0))
              (getTheta (scale (nSigmaForRadius ctrl) axes0)))
           (footprintOfEllipse env (scale (nSigmaForRadius ctrl) axes0) center) = Inr f \<longrightarrow>
      getGood f \<longrightarrow>
      (let trial = scale (nSigmaForRadius ctrl) axes0;
           radius = getIr f * sqrt (getB trial / getA trial)
       in (nSigmaForRadius ctrl \<noteq> 0 \<longrightarrow> radius = getIr f * sqrt (getB axes0 / getA axes0)) \<and>
          determine_loop env mimage ctrl center i axes0 radius0 rfr hist =
            (if radius \<le> radius0 then (Inr trial, Some (getDeterminantRadius trial), hist)
             else determine_loop env mimage ctrl center (i + 1)
                    (scale (radius / getDeterminantRadius trial) trial) radius
                    (Some (getDeterminantRadius trial)) (hist @ [radius]))))
   \<and> (\<not> i < nIterForRadius ctrl \<longrightarrow>
        determine_loop env mimage ctrl center i axes0 radius0 rfr hist = (Inr axes0, rfr, hist))
   \<and> sorted_wrt (<) (getDeterminantRadius axes # determine_radii env mimage axes center ctrl)
   \<and> int (length (determine_radii env mimage axes center ctrl)) \<le> max 0 (nIterForRadius ctrl)
   \<and> (0 < nSigmaForRadius ctrl \<longrightarrow> 0 < getA axes \<longrightarrow> 0 < getB axes \<longrightarrow>
        KronAperture_determine env mimage axes center ctrl rfr = (Inr ap, r) \<longrightarrow>
        getB (getAxes ap) / getA (getAxes ap) = getB axes / getA axes \<and>
        getTheta (getAxes ap) = getTheta axes)"
proof (intro conjI impI)
  assume i: "i < nIterForRadius ctrl"
    and m: "measuredImage env mimage ctrl (footprintOfEllipse env (scale (nSigmaForRadius ctrl) axes0) center) = Inr sub"
    and a: "FootprintFindMoment_apply
           (FootprintFindMoment_new sub center
              (getA (scale (nSigmaForRadius ctrl) axes0) / getB (scale (nSigmaForRadius ctrl) axes0))
              (getTheta (scale (nSigmaForRadius ctrl) axes0)))
           (footprintOfEllipse env (scale (nSigmaForRadius ctrl) axes0) center) = Inr f"
    and g: "getGood f"
  show "let trial = scale (nSigmaForRadius ctrl) axes0;
           radius = getIr f * sqrt (getB trial / getA trial)
       in (nSigmaForRadius ctrl \<noteq> 0 \<longrightarrow> radius = getIr f * sqrt (getB axes0 / getA axes0)) \<and>
          determine_loop env mimage ctrl center i axes0 radius0 rfr hist =
            (if radius \<le> radius0 then (Inr trial, Some (getDeterminantRadius trial), hist)
             else determine_loop env mimage ctrl center (i + 1)
                    (scale (radius / getDeterminantRadius trial) trial) radius
                    (Some (getDeterminantRadius trial)) (hist @ [radius]))"
    unfolding Let_def
  proof (intro conjI impI)
    assume "nSigmaForRadius ctrl \<noteq> 0"
    then show "getIr f * sqrt (getB (scale (nSigmaForRadius ctrl) axes0) / getA (scale (nSigmaForRadius ctrl) axes0))
        = getIr f * sqrt (getB axes0 / getA axes0)"
      by (simp add: scale_def)
  next
    show "determine_loop env mimage ctrl center i axes0 radius0 rfr hist =
      (if getIr f * sqrt (getB (scale (nSigmaForRadius ctrl) axes0) / getA (scale (nSigmaForRadius ctrl) axes0)) \<le> radius0
       then (Inr (scale (nSigmaForRadius ctrl) axes0), Some (getDeterminantRadius (scale (nSigmaForRadius ctrl) axes0)), hist)
       else determine_loop env mimage ctrl center (i + 1)
         (scale (getIr f * sqrt (getB (scale (nSigmaForRadius ctrl) axes0) / getA (scale (nSigmaForRadius ctrl) axes0)) /
            getDeterminantRadius (scale (nSigmaForRadius ctrl) axes0)) (scale (nSigmaForRadius ctrl) axes0))
         (getIr f * sqrt (getB (scale (nSigmaForRadius ctrl) axes0) / getA (scale (nSigmaForRadius ctrl) axes0)))
         (Some (getDeterminantRadius (scale (nSigmaForRadius ctrl) axes0)))
         (hist @ [getIr f * sqrt (getB (scale (nSigmaForRadius ctrl) axes0) / getA (scale (nSigmaForRadius ctrl) axes0))]))"
      using i iter_valid [OF m a g, of i radius0]
      by (subst determine_loop.simps) (simp add: Let_def)
  qed
next
  assume "\<not> i < nIterForRadius ctrl"
  then show "determine_loop env mimage ctrl center i axes0 radius0 rfr hist = (Inr axes0, rfr, hist)"
    by (subst determine_loop.simps) simp
next
  from loop_history [of env mimage ctrl center 0 axes "getDeterminantRadius axes" None "[]"]
  obtain new where new: "determine_radii env mimage axes center ctrl = new"
     "sorted_wrt (<) (getDeterminantRadius axes # new)" "int (length new) \<le> max 0 (nIterForRadius ctrl)"
    by (auto simp: determine_radii_def)
  then show "sorted_wrt (<) (getDeterminantRadius axes # determine_radii env mimage axes center ctrl)"
    by simp
  from new show "int (length (determine_radii env mimage axes center ctrl)) \<le> max 0 (nIterForRadius ctrl)"
    by simp
next
  assume "0 < nSigmaForRadius ctrl" "0 < getA axes" "0 < getB axes"
    "KronAperture_determine env mimage axes center ctrl rfr = (Inr ap, r)"
  from determine_shape [OF this]
  show "getB (getAxes ap) / getA (getAxes ap) = getB axes / getA axes" 
    and "getTheta (getAxes ap) = getTheta axes" by simp_all
qed

text \<open>
  On the image with its flux in the pixel \<open>(2, 1)\<close> the first iteration measures the
  radius 1 and adopts it (the previous value is 1/2); on the image with its flux in the
  central pixel it measures 0.38259771140356325 and stops.
\<close>

theorem determine_radius_update_witness:
  "determine_loop testEnv deltaImage (testCtrl False 0) (1, 1) 0 testAxes (1/2) None [] =
     determine_loop testEnv deltaImage (testCtrl False 0) (1, 1) 1
       \<lparr>getA = 1, getB = 1, getTheta = 0\<rparr> 1 (Some 1) [1] \<and>
   determine_loop testEnv centreImage (testCtrl False 0) (1, 1) 0 testAxes (1/2) None [] =
     (Inr \<lparr>getA = 1, getB = 1, getTheta = 0\<rparr>, Some 1, []) \<and>
   determine_loop testEnv deltaImage (testCtrl False 0) (1, 1) 2 testAxes (1/2) None [] =
     (Inr testAxes, None, []) \<and>
   determine_radii testEnv deltaImage testAxes (1, 1) (testCtrl False 0) = [1] \<and>
   sorted_wrt (<) (getDeterminantRadius testAxes #
                   determine_radii testEnv deltaImage testAxes (1, 1) (testCtrl False 0)) \<and>
   getB \<lparr>getA = 2, getB = 2, getTheta = 0\<rparr> / getA \<lparr>getA = 2, getB = 2, getTheta = 0\<rparr> =
     getB testAxes / getA testAxes"
proof -
  note inst = determine_radius_update [where env = testEnv and ctrl = "testCtrl False 0"
      and center = "(1, 1)" and ?axes0.0 = testAxes and ?radius0.0 = "1/2" and rfr = None
      and hist = "[]" and axes = testAxes and r = "Some 2"
      and ap = "\<lparr>getCenter = (1, 1), getAxes = \<lparr>getA = 2, getB = 2, getTheta = 0\<rparr>\<rparr>"]
  have n: "(0::int) < nIterForRadius (testCtrl False 0)" "\<not> (2::int) < nIterForRadius (testCtrl False 0)"
    "0 < nSigmaForRadius (testCtrl False 0)"
    by (simp_all add: testCtrl_def)
  have g: "getGood (h\<lparr>fmSum := 1, fmSumR := c\<rparr>) = (0 < c)" for h c
    by (simp add: getGood_def)
  have ir: "getIr (h\<lparr>fmSum := 1, fmSumR := c\<rparr>) = c" for h c
    by (simp add: getIr_def)
  have fp: "footprintOfEllipse testEnv = rasterise" by (simp add: testEnv_def)
  have d1: "getDeterminantRadius \<lparr>getA = 1, getB = 1, getTheta = 0\<rparr> = 1"
    by (simp add: getDeterminantRadius_def)
  have sc1: "scale 1 \<lparr>getA = 1, getB = 1, getTheta = 0\<rparr> = \<lparr>getA = 1, getB = 1, getTheta = 0\<rparr>"
    by (simp add: scale_def)
  have ax: "0 < getA testAxes" "0 < getB testAxes" by (simp_all add: testAxes_def)
  have rd: "determine_radii testEnv deltaImage testAxes (1, 1) (testCtrl False 0) = [1]"
    by (simp add: determine_radii_def detRadius_testAxes loop_delta)
  from inst [where i = 0 and mimage = deltaImage and sub = deltaImage
      and f = "(FootprintFindMoment_new deltaImage (1, 1) 1 0)\<lparr>fmSum := 1, fmSumR := 1\<rparr>"]
  have a: "determine_loop testEnv deltaImage (testCtrl False 0) (1, 1) 0 testAxes (1/2) None [] =
     determine_loop testEnv deltaImage (testCtrl False 0) (1, 1) 1
       \<lparr>getA = 1, getB = 1, getTheta = 0\<rparr> 1 (Some 1) [1]"
    and d: "sorted_wrt (<) (getDeterminantRadius testAxes #
                   determine_radii testEnv deltaImage testAxes (1, 1) (testCtrl False 0))"
    and e: "getB \<lparr>getA = 2, getB = 2, getTheta = 0\<rparr> / getA \<lparr>getA = 2, getB = 2, getTheta = 0\<rparr> =
     getB testAxes / getA testAxes"
    by (simp_all add: n measured_delta1 trial_first fp moment_delta g ir d1 sc1 Let_def
          ax determine_delta)
  from inst [where i = 0 and mimage = centreImage and sub = centreImage
      and f = "(FootprintFindMoment_new centreImage (1, 1) 1 0)
                \<lparr>fmSum := 1, fmSumR := 0.38259771140356325\<rparr>"]
  have b: "determine_loop testEnv centreImage (testCtrl False 0) (1, 1) 0 testAxes (1/2) None [] =
     (Inr \<lparr>getA = 1, getB = 1, getTheta = 0\<rparr>, Some 1, [])"
    by (simp add: n measured_centre1 trial_first fp moment_centre g ir d1 Let_def)
  from inst [where i = 2 and mimage = deltaImage]
  have c: "determine_loop testEnv deltaImage (testCtrl False 0) (1, 1) 2 testAxes (1/2) None [] =
     (Inr testAxes, None, [])"
    by (simp add: n)
  from a b c d e rd show ?thesis by simp
qed

subsection \<open>C5\<close>

text \<open>
  C5, as amended. \<open>photometer\<close>: when the semi-minor axis is greater than
  \<open>maxSincRadius\<close>, and the footprint of the ellipse has no pixel, or the box of the
  image is empty or contains both corners of the footprint's bounding box, the result is
  the sum of the image over the pixels of the footprint and the square root of the sum
  of the variance over them; when the footprint does not fit so, a \<open>LengthError\<close>
  leaves \<open>photometer\<close>, with no message added. When the semi-minor axis is not greater
  than \<open>maxSincRadius\<close>, the result is that of the sinc primitive, and a
  \<open>LengthError\<close> of the primitive is thrown on with a message added.
\<close>

theorem photometer_dispatch:
  "(maxSinc < getB axes \<longrightarrow>
      photometer env mimage axes center maxSinc =
        (if pixels (footprintOfEllipse env axes center) = [] \<or> isEmpty (imageBBox mimage) \<or>
            (contains (imageBBox mimage)
               (boxMinX (getBBox (footprintOfEllipse env axes center)),
                boxMinY (getBBox (footprintOfEllipse env axes center))) \<and>
             contains (imageBBox mimage)
               (getMaxX (getBBox (footprintOfEllipse env axes center)),
                getMaxY (getBBox (footprintOfEllipse env axes center))))
         then Inr ((\<Sum>p\<leftarrow>pixels (footprintOfEllipse env axes center).
                      imageAt mimage (fst p) (snd p)),
                   sqrt (\<Sum>p\<leftarrow>pixels (footprintOfEllipse env axes center).
                      varianceAt mimage (fst p) (snd p)))
         else Inl (LSST_EXCEPT LengthError ''Footprint doesn't fit in image'')))
   \<and> (\<not> maxSinc < getB axes \<longrightarrow>
        (\<forall>res. calculateSincApertureFlux env mimage axes center = Inr res \<longrightarrow>
           photometer env mimage axes center maxSinc = Inr res) \<and>
        (\<forall>e. calculateSincApertureFlux env mimage axes center = Inl e \<longrightarrow>
           excType e = LengthError \<longrightarrow>
           photometer env mimage axes center maxSinc =
             Inl (e\<lparr>messages := messages e @ [''Measuring Kron flux for object'']\<rparr>)))"
  by (simp add: photometer_def Let_def flux_apply_eq getSum_def getSumVar_def
        LSST_EXCEPT_ADD_def)

text \<open>
  The ellipse of radius 1 about \<open>(1, 1)\<close> fits the 3 by 3 image: five pixels of unit
  variance, one of them with the flux 1. The ellipse of radius 2 does not fit. The sinc
  primitive that answers; the sinc primitive that throws.
\<close>

theorem photometer_dispatch_witness:
  "(0::real) < getB \<lparr>getA = 1, getB = 1, getTheta = 0\<rparr> \<and>
   photometer testEnv deltaImage \<lparr>getA = 1, getB = 1, getTheta = 0\<rparr> (1, 1) 0 = Inr (1, sqrt 5) \<and>
   (0::real) < getB \<lparr>getA = 2, getB = 2, getTheta = 0\<rparr> \<and>
   photometer testEnv deltaImage \<lparr>getA = 2, getB = 2, getTheta = 0\<rparr> (1, 1) 0 =
     Inl (LSST_EXCEPT LengthError ''Footprint doesn't fit in image'') \<and>
   \<not> (10::real) < getB \<lparr>getA = 1, getB = 1, getTheta = 0\<rparr> \<and>
   photometer testEnv nullImage \<lparr>getA = 1, getB = 1, getTheta = 0\<rparr> (1, 1) 10 = Inr (0, 1) \<and>
   photometer edgeEnv deltaImage \<lparr>getA = 1, getB = 1, getTheta = 0\<rparr> (1, 1) 10 =
     Inl \<lparr>excType = LengthError,
          messages = [''Aperture does not fit in image'', ''Measuring Kron flux for object'']\<rparr>"
proof -
  have fp: "footprintOfEllipse testEnv = rasterise" "footprintOfEllipse edgeEnv = rasterise"
    by (simp_all add: testEnv_def edgeEnv_def)
  note inst = photometer_dispatch [where center = "(1, 1)"]
  from inst [where env = testEnv and maxSinc = 0 and mimage = deltaImage
      and axes = "\<lparr>getA = 1, getB = 1, getTheta = 0\<rparr>"]
  have a: "photometer testEnv deltaImage \<lparr>getA = 1, getB = 1, getTheta = 0\<rparr> (1, 1) 0 =
     Inr (1, sqrt 5)"
    by (simp add: fp raster1 image_box_delta contains_def isEmpty_def getMaxX_def getMaxY_def)
      (simp add: deltaImage_def)
  from inst [where env = testEnv and maxSinc = 0 and mimage = deltaImage
      and axes = "\<lparr>getA = 2, getB = 2, getTheta = 0\<rparr>"]
  have b: "photometer testEnv deltaImage \<lparr>getA = 2, getB = 2, getTheta = 0\<rparr> (1, 1) 0 =
     Inl (LSST_EXCEPT LengthError ''Footprint doesn't fit in image'')"
    by (simp add: fp raster2 raster2_pixels image_box_delta contains_def isEmpty_def
          getMaxX_def getMaxY_def)
  from inst [where env = testEnv and maxSinc = 10 and mimage = nullImage
      and axes = "\<lparr>getA = 1, getB = 1, getTheta = 0\<rparr>"]
  have c: "photometer testEnv nullImage \<lparr>getA = 1, getB = 1, getTheta = 0\<rparr> (1, 1) 10 = Inr (0, 1)"
    by (simp add: testEnv_def)
  from inst [where env = edgeEnv and maxSinc = 10 and mimage = deltaImage
      and axes = "\<lparr>getA = 1, getB = 1, getTheta = 0\<rparr>"]
  have d: "photometer edgeEnv deltaImage \<lparr>getA = 1, getB = 1, getTheta = 0\<rparr> (1, 1) 10 =
     Inl \<lparr>excType = LengthError,
          messages = [''Aperture does not fit in image'', ''Measuring Kron flux for object'']\<rparr>"
    by (simp add: edgeEnv_def LSST_EXCEPT_def)
  from a b c d show ?thesis by simp
qed

text \<open>
  The claim as stated fails for the ellipse of radius 2 about \<open>(1, 1)\<close> with the
  threshold 0: its semi-minor axis is above the threshold, its footprint reaches the
  column and the row \<open>-1\<close>, and \<open>photometer\<close> throws \<open>LengthError\<close> where the claim has
  it return the two sums.
\<close>

theorem photometer_summation_edge:
  "(0::real) < getB \<lparr>getA = 2, getB = 2, getTheta = 0\<rparr> \<and>
   pixels (footprintOfEllipse testEnv \<lparr>getA = 2, getB = 2, getTheta = 0\<rparr> (1, 1)) \<noteq> [] \<and>
   photometer testEnv deltaImage \<lparr>getA = 2, getB = 2, getTheta = 0\<rparr> (1, 1) 0 =
     Inl (LSST_EXCEPT LengthError ''Footprint doesn't fit in image'') \<and>
   photometer testEnv deltaImage \<lparr>getA = 2, getB = 2, getTheta = 0\<rparr> (1, 1) 0 \<noteq>
     Inr ((\<Sum>p\<leftarrow>pixels (footprintOfEllipse testEnv \<lparr>getA = 2, getB = 2, getTheta = 0\<rparr> (1, 1)).
              imageAt deltaImage (fst p) (snd p)),
          sqrt (\<Sum>p\<leftarrow>pixels (footprintOfEllipse testEnv \<lparr>getA = 2, getB = 2, getTheta = 0\<rparr> (1, 1)).
              varianceAt deltaImage (fst p) (snd p)))"
proof -
  have fp: "footprintOfEllipse testEnv = rasterise" by (simp add: testEnv_def)
  have p: "photometer testEnv deltaImage \<lparr>getA = 2, getB = 2, getTheta = 0\<rparr> (1, 1) 0 =
     Inl (LSST_EXCEPT LengthError ''Footprint doesn't fit in image'')"
    by (simp add: photometer_def flux_apply_eq fp raster2 raster2_pixels image_box_delta
          contains_def isEmpty_def getMaxX_def getMaxY_def)
  show ?thesis
    by (simp add: p fp raster2_pixels)
qed

subsection \<open>C6\<close>



subsection \<open>C7\<close>

text \<open>
  C7. With \<open>enforceMinimumRadius\<close> set: when the minimum radius is not positive and
  the exposure has no PSF, \<open>_apply\<close> ends with an exception, and when it reaches the
  constraints on the minimum radius that exception is the \<open>RuntimeError\<close> "No minimum
  radius and no PSF provided". Otherwise the floor is the minimum radius when it is
  positive and the Kron radius of the PSF when not; an aperture whose determinant radius
  is less than the floor is scaled by floor / radius (which, the radius being positive,
  gives the determinant radius the floor and keeps orientation and axis ratio), the
  small-radius flag is set together with the flag naming the floor used; an aperture at
  or above the floor and the source record are left as they are.
\<close>

theorem enforceMinimum_floor:
  assumes "enforceMinimumRadius ctrl"
  shows
   "(\<not> 0 < minimumRadius ctrl \<and> getPsf exposure = None \<longrightarrow>
       fst (KronFlux_apply env ctrl source0 exposure center) \<noteq> None \<and>
       enforceMinimum ctrl source exposure (psfKronRadius ctrl exposure center) aperture =
         (Inl (LSST_EXCEPT RuntimeError ''No minimum radius and no PSF provided''), source) \<and>
       (candidateAperture env ctrl source0 exposure center = Some (aperture, bad, source, rfr) \<longrightarrow>
          KronFlux_apply env ctrl source0 exposure center =
            (Some (LSST_EXCEPT RuntimeError ''No minimum radius and no PSF provided''), source)))
    \<and> (0 < minimumRadius ctrl \<or> getPsf exposure \<noteq> None \<longrightarrow>
        (let floor = (if 0 < minimumRadius ctrl then minimumRadius ctrl
                      else psfKronRadius ctrl exposure center);
             rad = getDeterminantRadius (getAxes aperture)
         in enforceMinimum ctrl source exposure (psfKronRadius ctrl exposure center) aperture =
              (if rad < floor
               then (Inr (aperture\<lparr>getAxes := scale (floor / rad) (getAxes aperture)\<rparr>),
                     (if 0 < minimumRadius ctrl then source\<lparr>usedMinimumRadiusKey := True\<rparr>
                      else source\<lparr>usedPsfRadiusKey := True\<rparr>)\<lparr>smallRadiusKey := True\<rparr>)
               else (Inr aperture, source))
            \<and> (0 < rad \<and> rad < floor \<longrightarrow>
                 getDeterminantRadius (scale (floor / rad) (getAxes aperture)) = floor \<and>
                 getTheta (scale (floor / rad) (getAxes aperture)) = getTheta (getAxes aperture) \<and>
                 getB (scale (floor / rad) (getAxes aperture)) * getA (getAxes aperture) =
                 getA (scale (floor / rad) (getAxes aperture)) * getB (getAxes aperture))))"
proof (intro conjI impI)
  assume h: "\<not> 0 < minimumRadius ctrl \<and> getPsf exposure = None"
  with assms have any: "enforceMinimum ctrl s exposure (psfKronRadius ctrl exposure center) a =
         (Inl (LSST_EXCEPT RuntimeError ''No minimum radius and no PSF provided''), s)" for s a
    by (simp add: enforceMinimum_def Let_def)
  show "fst (KronFlux_apply env ctrl source0 exposure center) \<noteq> None"
  proof (cases "candidateAperture env ctrl source0 exposure center")
    case None
    then show ?thesis by (rule apply_no_candidate)
  next
    case (Some c)
    obtain a b s r where "c = (a, b, s, r)" by (metis prod_cases4)
    with Some apply_candidate [of env ctrl source0 exposure center a b s r] any [of s a]
    show ?thesis by simp
  qed
  from h assms show en: "enforceMinimum ctrl source exposure (psfKronRadius ctrl exposure center) aperture =
         (Inl (LSST_EXCEPT RuntimeError ''No minimum radius and no PSF provided''), source)"
    by (simp add: enforceMinimum_def Let_def)
  assume "candidateAperture env ctrl source0 exposure center = Some (aperture, bad, source, rfr)"
  from apply_candidate [OF this] en
  show "KronFlux_apply env ctrl source0 exposure center =
            (Some (LSST_EXCEPT RuntimeError ''No minimum radius and no PSF provided''), source)"
    by simp
next
  assume h: "0 < minimumRadius ctrl \<or> getPsf exposure \<noteq> None"
  show "let floor = (if 0 < minimumRadius ctrl then minimumRadius ctrl
                      else psfKronRadius ctrl exposure center);
             rad = getDeterminantRadius (getAxes aperture)
         in enforceMinimum ctrl source exposure (psfKronRadius ctrl exposure center) aperture =
              (if rad < floor
               then (Inr (aperture\<lparr>getAxes := scale (floor / rad) (getAxes aperture)\<rparr>),
                     (if 0 < minimumRadius ctrl then source\<lparr>usedMinimumRadiusKey := True\<rparr>
                      else source\<lparr>usedPsfRadiusKey := True\<rparr>)\<lparr>smallRadiusKey := True\<rparr>)
               else (Inr aperture, source))
            \<and> (0 < rad \<and> rad < floor \<longrightarrow>
                 getDeterminantRadius (scale (floor / rad) (getAxes aperture)) = floor \<and>
                 getTheta (scale (floor / rad) (getAxes aperture)) = getTheta (getAxes aperture) \<and>
                 getB (scale (floor / rad) (getAxes aperture)) * getA (getAxes aperture) =
                 getA (scale (floor / rad) (getAxes aperture)) * getB (getAxes aperture))"
    unfolding Let_def
  proof (intro conjI impI)
    show "enforceMinimum ctrl source exposure (psfKronRadius ctrl exposure center) aperture =
      (if getDeterminantRadius (getAxes aperture)
          < (if 0 < minimumRadius ctrl then minimumRadius ctrl else psfKronRadius ctrl exposure center)
       then (Inr (aperture\<lparr>getAxes := scale ((if 0 < minimumRadius ctrl then minimumRadius ctrl
                       else psfKronRadius ctrl exposure center) / getDeterminantRadius (getAxes aperture))
                   (getAxes aperture)\<rparr>),
             (if 0 < minimumRadius ctrl then source\<lparr>usedMinimumRadiusKey := True\<rparr>
              else source\<lparr>usedPsfRadiusKey := True\<rparr>)\<lparr>smallRadiusKey := True\<rparr>)
       else (Inr aperture, source))"
      using assms h by (auto simp add: enforceMinimum_def Let_def)
  next
    assume r: "0 < getDeterminantRadius (getAxes aperture) \<and>
      getDeterminantRadius (getAxes aperture)
        < (if 0 < minimumRadius ctrl then minimumRadius ctrl else psfKronRadius ctrl exposure center)"
    then show "getDeterminantRadius (scale ((if 0 < minimumRadius ctrl then minimumRadius ctrl
                       else psfKronRadius ctrl exposure center) / getDeterminantRadius (getAxes aperture))
                   (getAxes aperture)) =
       (if 0 < minimumRadius ctrl then minimumRadius ctrl else psfKronRadius ctrl exposure center)"
      by (intro detRadius_rescale) auto
    show "getTheta (scale ((if 0 < minimumRadius ctrl then minimumRadius ctrl
                       else psfKronRadius ctrl exposure center) / getDeterminantRadius (getAxes aperture))
                   (getAxes aperture)) = getTheta (getAxes aperture)"
      by (simp add: scale_def)
    show "getB (scale ((if 0 < minimumRadius ctrl then minimumRadius ctrl
                       else psfKronRadius ctrl exposure center) / getDeterminantRadius (getAxes aperture))
                   (getAxes aperture)) * getA (getAxes aperture) =
          getA (scale ((if 0 < minimumRadius ctrl then minimumRadius ctrl
                       else psfKronRadius ctrl exposure center) / getDeterminantRadius (getAxes aperture))
                   (getAxes aperture)) * getB (getAxes aperture)"
      by (simp add: scale_def)
  qed
qed

text \<open>
  Without PSF and minimum the measurement of the test source fails; the solved aperture
  of radius 2 is raised to the minimum 3 and left alone by the minimum 1; an aperture of
  radius 1/4 is raised to the Kron radius of the PSF.
\<close>

theorem enforceMinimum_floor_witness:
  "KronFlux_apply testEnv (testCtrl True 0) (testSource False) (noPsfExposure deltaImage) (1, 1) =
     (Some (LSST_EXCEPT RuntimeError ''No minimum radius and no PSF provided''),
      initFlags (testSource False)) \<and>
   enforceMinimum (testCtrl True 3) (testSource False) (testExposure deltaImage)
       (psfKronRadius (testCtrl True 3) (testExposure deltaImage) (1, 1))
       \<lparr>getCenter = (1, 1), getAxes = \<lparr>getA = 2, getB = 2, getTheta = 0\<rparr>\<rparr> =
     (Inr \<lparr>getCenter = (1, 1), getAxes = \<lparr>getA = 3, getB = 3, getTheta = 0\<rparr>\<rparr>,
      (testSource False)\<lparr>usedMinimumRadiusKey := True, smallRadiusKey := True\<rparr>) \<and>
   getDeterminantRadius \<lparr>getA = 3, getB = 3, getTheta = 0\<rparr> = 3 \<and>
   enforceMinimum (testCtrl True 1) (testSource False) (testExposure deltaImage)
       (psfKronRadius (testCtrl True 1) (testExposure deltaImage) (1, 1))
       \<lparr>getCenter = (1, 1), getAxes = \<lparr>getA = 2, getB = 2, getTheta = 0\<rparr>\<rparr> =
     (Inr \<lparr>getCenter = (1, 1), getAxes = \<lparr>getA = 2, getB = 2, getTheta = 0\<rparr>\<rparr>, testSource False) \<and>
   enforceMinimum (testCtrl True 0) (testSource False) (testExposure deltaImage)
       (psfKronRadius (testCtrl True 0) (testExposure deltaImage) (1, 1))
       \<lparr>getCenter = (1, 1), getAxes = \<lparr>getA = 1/4, getB = 1/4, getTheta = 0\<rparr>\<rparr> =
     (Inr \<lparr>getCenter = (1, 1), getAxes = \<lparr>getA = testR, getB = testR, getTheta = 0\<rparr>\<rparr>,
      (testSource False)\<lparr>usedPsfRadiusKey := True, smallRadiusKey := True\<rparr>)"
proof -
  have en: "enforceMinimumRadius (testCtrl True mn)" for mn by (simp add: testCtrl_def)
  have mr: "minimumRadius (testCtrl True mn) = mn" for mn by (simp add: testCtrl_def)
  have ps: "getPsf (noPsfExposure deltaImage) = None" "getPsf (testExposure deltaImage) \<noteq> None"
    by (simp_all add: noPsfExposure_def testExposure_def)
  have d2: "getDeterminantRadius \<lparr>getA = 2, getB = 2, getTheta = 0\<rparr> = 2"
    by (simp add: getDeterminantRadius_def)
  have d4: "getDeterminantRadius \<lparr>getA = 1/4, getB = 1/4, getTheta = 0\<rparr> = 1/4"
    by (simp add: getDeterminantRadius_def sqrt_sixteenth)
  note inst = enforceMinimum_floor [where center = "(1, 1)"]
  from inst [OF en, where mn1 = 0 and exposure = "noPsfExposure deltaImage"
      and source = "initFlags (testSource False)" and env = testEnv and ?source0.0 = "testSource False"
      and aperture = "\<lparr>getCenter = (1, 1), getAxes = \<lparr>getA = 2, getB = 2, getTheta = 0\<rparr>\<rparr>"
      and bad = False and rfr = "Some 2"]
  have a: "KronFlux_apply testEnv (testCtrl True 0) (testSource False) (noPsfExposure deltaImage) (1, 1) =
     (Some (LSST_EXCEPT RuntimeError ''No minimum radius and no PSF provided''),
      initFlags (testSource False))"
    by (simp add: mr ps candidate_delta_noPsf)
  from inst [OF en, where mn1 = 3 and exposure = "testExposure deltaImage"
      and source = "testSource False"
      and aperture = "\<lparr>getCenter = (1, 1), getAxes = \<lparr>getA = 2, getB = 2, getTheta = 0\<rparr>\<rparr>"]
  have b: "enforceMinimum (testCtrl True 3) (testSource False) (testExposure deltaImage)
       (psfKronRadius (testCtrl True 3) (testExposure deltaImage) (1, 1))
       \<lparr>getCenter = (1, 1), getAxes = \<lparr>getA = 2, getB = 2, getTheta = 0\<rparr>\<rparr> =
     (Inr \<lparr>getCenter = (1, 1), getAxes = \<lparr>getA = 3, getB = 3, getTheta = 0\<rparr>\<rparr>,
      (testSource False)\<lparr>usedMinimumRadiusKey := True, smallRadiusKey := True\<rparr>)"
    and b': "getDeterminantRadius \<lparr>getA = 3, getB = 3, getTheta = 0\<rparr> = 3"
    by (simp_all add: mr ps d2 Let_def scale_def)
  from inst [OF en, where mn1 = 1 and exposure = "testExposure deltaImage"
      and source = "testSource False"
      and aperture = "\<lparr>getCenter = (1, 1), getAxes = \<lparr>getA = 2, getB = 2, getTheta = 0\<rparr>\<rparr>"]
  have c: "enforceMinimum (testCtrl True 1) (testSource False) (testExposure deltaImage)
       (psfKronRadius (testCtrl True 1) (testExposure deltaImage) (1, 1))
       \<lparr>getCenter = (1, 1), getAxes = \<lparr>getA = 2, getB = 2, getTheta = 0\<rparr>\<rparr> =
     (Inr \<lparr>getCenter = (1, 1), getAxes = \<lparr>getA = 2, getB = 2, getTheta = 0\<rparr>\<rparr>, testSource False)"
    by (simp add: mr ps d2 Let_def)
  from inst [OF en, where mn1 = 0 and exposure = "testExposure deltaImage"
      and source = "testSource False"
      and aperture = "\<lparr>getCenter = (1, 1), getAxes = \<lparr>getA = 1/4, getB = 1/4, getTheta = 0\<rparr>\<rparr>"]
    testR_bounds
  have d: "enforceMinimum (testCtrl True 0) (testSource False) (testExposure deltaImage)
       (psfKronRadius (testCtrl True 0) (testExposure deltaImage) (1, 1))
       \<lparr>getCenter = (1, 1), getAxes = \<lparr>getA = 1/4, getB = 1/4, getTheta = 0\<rparr>\<rparr> =
     (Inr \<lparr>getCenter = (1, 1), getAxes = \<lparr>getA = testR, getB = testR, getTheta = 0\<rparr>\<rparr>,
      (testSource False)\<lparr>usedPsfRadiusKey := True, smallRadiusKey := True\<rparr>)"
    by (simp add: mr ps d4 Let_def scale_def psfKronRadius_test)
  from a b b' c d show ?thesis by simp
qed

subsection \<open>C8\<close>

text \<open>
  C8, as amended. When the call of \<open>determine\<close> made by \<open>_apply\<close> throws
  \<open>BadKronException\<close>, the minimum radius is not positive and the Kron radius of the
  PSF is positive: \<open>_apply\<close> goes on with the aperture of the source's shape rescaled
  to the PSF Kron radius; at its end the PSF-radius-used and bad-radius flags are set
  and the minimum-radius-used flag is not; and if it ends without an exception, a flux
  and its error are recorded and the failure flag is the shape flag of the source:
  cleared for a valid shape, set for a bad one.
\<close>

theorem badKron_falls_back_to_psf:
  assumes so: "solverOutcome env ctrl source exposure center = Some (Inl e, rfr)"
    and bk: "excType e = BadKronException"
    and nm: "\<not> 0 < minimumRadius ctrl"
    and ps: "0 < psfKronRadius ctrl exposure center"
  shows "(\<exists>s2. candidateAperture env ctrl source exposure center =
           Some (\<lparr>getCenter = (getX source, getY source),
                  getAxes = scale (psfKronRadius ctrl exposure center /
                                     getDeterminantRadius (getShape source)) (getShape source)\<rparr>,
                 getShapeFlag source, s2, rfr))
     \<and> usedPsfRadiusKey (snd (KronFlux_apply env ctrl source exposure center))
     \<and> badRadiusKey (snd (KronFlux_apply env ctrl source exposure center))
     \<and> \<not> usedMinimumRadiusKey (snd (KronFlux_apply env ctrl source exposure center))
     \<and> (fst (KronFlux_apply env ctrl source exposure center) = None \<longrightarrow>
          fluxFlag (snd (KronFlux_apply env ctrl source exposure center)) = getShapeFlag source \<and>
          fluxMeas (snd (KronFlux_apply env ctrl source exposure center)) \<noteq> None \<and>
          fluxErr (snd (KronFlux_apply env ctrl source exposure center)) \<noteq> None)"
proof -
  from candidate_bad_kron [OF assms] obtain s2 where
    c: "candidateAperture env ctrl source exposure center =
           Some (\<lparr>getCenter = (getX source, getY source),
                  getAxes = scale (psfKronRadius ctrl exposure center /
                                     getDeterminantRadius (getShape source)) (getShape source)\<rparr>,
                 getShapeFlag source, s2, rfr)"
    and f: "badRadiusKey s2" "usedPsfRadiusKey s2"
    by blast
  obtain res s' where run: "KronFlux_apply env ctrl source exposure center = (res, s')"
    by (cases "KronFlux_apply env ctrl source exposure center")
  have um: "\<not> usedMinimumRadiusKey s'"
    using apply_used [OF run] nm by simp
  have fl: "fluxFlag s' = getShapeFlag source \<and> fluxMeas s' \<noteq> None \<and> fluxErr s' \<noteq> None"
    if "res = None"
  proof -
    from apply_completes [OF run [unfolded that]] c obtain s3 ap1 s4 ap2 where
      a: "KronFlux_applyAperture env ctrl s3 exposure ap1 = (None, s4, ap2)" and
      s: "s' = s4\<lparr>radiusForRadiusKey := rfr,
                    psfRadiusKey := Some (psfKronRadius ctrl exposure center),
                    fluxFlag := getShapeFlag source\<rparr>"
      by auto
    from applyAperture_flux [OF a] s show ?thesis by simp
  qed
  from c candidate_keeps [OF c f] um fl run show ?thesis by auto
qed

text \<open>The test source with a valid shape on the image without flux.\<close>

theorem badKron_falls_back_to_psf_witness:
  "solverOutcome testEnv (testCtrl False 0) (testSource False) (testExposure nullImage) (1, 1) =
     Some (Inl (LSST_EXCEPT BadKronException ''Bad integral defining Kron radius''), Some 1) \<and>
   \<not> 0 < minimumRadius (testCtrl False 0) \<and>
   0 < psfKronRadius (testCtrl False 0) (testExposure nullImage) (1, 1) \<and>
   usedPsfRadiusKey (snd (KronFlux_apply testEnv (testCtrl False 0) (testSource False)
                            (testExposure nullImage) (1, 1))) \<and>
   badRadiusKey (snd (KronFlux_apply testEnv (testCtrl False 0) (testSource False)
                        (testExposure nullImage) (1, 1))) \<and>
   \<not> usedMinimumRadiusKey (snd (KronFlux_apply testEnv (testCtrl False 0) (testSource False)
                                  (testExposure nullImage) (1, 1))) \<and>
   fst (KronFlux_apply testEnv (testCtrl False 0) (testSource False)
          (testExposure nullImage) (1, 1)) = None \<and>
   \<not> fluxFlag (snd (KronFlux_apply testEnv (testCtrl False 0) (testSource False)
                      (testExposure nullImage) (1, 1))) \<and>
   fluxMeas (snd (KronFlux_apply testEnv (testCtrl False 0) (testSource False)
                    (testExposure nullImage) (1, 1))) \<noteq> None"
proof -
  have bk: "excType (LSST_EXCEPT BadKronException ''Bad integral defining Kron radius'') =
              BadKronException"
    by (simp add: LSST_EXCEPT_def)
  have nm: "\<not> 0 < minimumRadius (testCtrl False 0)" by (simp add: testCtrl_def)
  have ps: "0 < psfKronRadius (testCtrl False 0) (testExposure nullImage) (1, 1)"
    using testR_bounds by (simp add: psfKronRadius_test)
  have fl: "\<not> getShapeFlag (testSource False)" by (simp add: testSource_def)
  have run: "fst (KronFlux_apply testEnv (testCtrl False 0) (testSource False)
          (testExposure nullImage) (1, 1)) = None"
    by (simp add: apply_null)
  from badKron_falls_back_to_psf [OF solverOutcome_null bk nm ps] solverOutcome_null nm ps fl run
  show ?thesis by simp
qed

text \<open>
  The claim as stated fails for a source whose shape flag is set: the solver throws
  \<open>BadKronException\<close>, there is no minimum radius, the PSF is there, the flux is
  measured, and the failure flag is left set.
\<close>

theorem badKron_bad_shape_keeps_failure:
  "solverOutcome testEnv (testCtrl False 0) (testSource True) (testExposure nullImage) (1, 1) =
     Some (Inl (LSST_EXCEPT BadKronException ''Bad integral defining Kron radius''), Some 1) \<and>
   minimumRadius (testCtrl False 0) = 0 \<and>
   getPsf (testExposure nullImage) = Some testPsf \<and>
   0 < psfKronRadius (testCtrl False 0) (testExposure nullImage) (1, 1) \<and>
   fst (KronFlux_apply testEnv (testCtrl False 0) (testSource True)
          (testExposure nullImage) (1, 1)) = None \<and>
   fluxMeas (snd (KronFlux_apply testEnv (testCtrl False 0) (testSource True)
                    (testExposure nullImage) (1, 1))) = Some 0 \<and>
   usedPsfRadiusKey (snd (KronFlux_apply testEnv (testCtrl False 0) (testSource True)
                            (testExposure nullImage) (1, 1))) \<and>
   fluxFlag (snd (KronFlux_apply testEnv (testCtrl False 0) (testSource True)
                    (testExposure nullImage) (1, 1)))"
proof -
  have "minimumRadius (testCtrl False 0) = 0" by (simp add: testCtrl_def)
  moreover have "getPsf (testExposure nullImage) = Some testPsf" by (simp add: testExposure_def)
  moreover have "0 < psfKronRadius (testCtrl False 0) (testExposure nullImage) (1, 1)"
    using testR_bounds by (simp add: psfKronRadius_test)
  ultimately show ?thesis
    by (simp add: solverOutcome_null apply_null)
qed

subsection \<open>C9\<close>

text \<open>
  C9. \<open>KronAperture::measure\<close> and \<open>_applyAperture\<close> leave the aperture as it was,
  however they end. When \<open>_applyAperture\<close> returns, the flux recorded is that of
  \<open>photometer\<close> on the axes scaled by \<open>nRadiusForFlux\<close>, and the radius recorded is
  the determinant radius of the aperture itself, which is not that of the scaled axes
  unless \<open>nRadiusForFlux\<close> is 1 or -1.
\<close>

theorem applyAperture_keeps_aperture:
  assumes "KronFlux_applyAperture env ctrl source exposure aperture = (res, source1, aperture1)"
  shows "aperture1 = aperture \<and>
         snd (KronAperture_measure env (getMaskedImage exposure) (nRadiusForFlux ctrl)
                (maxSincRadius ctrl) aperture) = aperture \<and>
         (res = None \<longrightarrow>
            radiusKey source1 = Some (getDeterminantRadius (getAxes aperture)) \<and>
            (\<exists>flux err.
               photometer env (getMaskedImage exposure)
                 (scale (nRadiusForFlux ctrl) (getAxes aperture)) (getCenter aperture)
                 (maxSincRadius ctrl) = Inr (flux, err) \<and>
               fluxMeas source1 = Some flux \<and> fluxErr source1 = Some err) \<and>
            (\<bar>nRadiusForFlux ctrl\<bar> \<noteq> 1 \<longrightarrow>
               radiusKey source1 \<noteq>
                 Some (getDeterminantRadius (scale (nRadiusForFlux ctrl) (getAxes aperture)))))"
proof -
  have eps: "0 < epsilon" by (simp add: epsilon_def)
  show ?thesis
    using assms eps
    unfolding KronFlux_applyAperture_def KronAperture_measure_def
    by (auto simp: Let_def detRadius_scale_abs split: if_splits sum.splits)
qed

text \<open>The fallback aperture of the test PSF, measured with \<open>nRadiusForFlux = 2\<close>.\<close>

theorem applyAperture_keeps_aperture_witness:
  "KronFlux_applyAperture testEnv (testCtrl False 0) (testSource False) (testExposure nullImage)
     \<lparr>getCenter = (1, 1), getAxes = \<lparr>getA = testR, getB = testR, getTheta = 0\<rparr>\<rparr> =
   (None, (testSource False)\<lparr>fluxMeas := Some 0, fluxErr := Some 1, radiusKey := Some testR\<rparr>,
    \<lparr>getCenter = (1, 1), getAxes = \<lparr>getA = testR, getB = testR, getTheta = 0\<rparr>\<rparr>) \<and>
   \<bar>nRadiusForFlux (testCtrl False 0)\<bar> \<noteq> 1 \<and>
   getDeterminantRadius \<lparr>getA = testR, getB = testR, getTheta = 0\<rparr> = testR \<and>
   getDeterminantRadius (scale (nRadiusForFlux (testCtrl False 0))
                           \<lparr>getA = testR, getB = testR, getTheta = 0\<rparr>) \<noteq> testR"
proof -
  have n: "nRadiusForFlux (testCtrl False 0) = 2" by (simp add: testCtrl_def)
  from applyAperture_keeps_aperture [OF applyAperture_null [of False 0 "testSource False"]]
  show ?thesis
    by (simp add: applyAperture_null n detRadius_R)
qed

subsection \<open>C10\<close>

text \<open>
  C10. When \<open>_apply\<close> returns without an exception, the failure flag is set exactly
  when the shape flag of the source was set or the call of \<open>determine\<close> threw an
  exception other than \<open>BadKronException\<close>; and the flux and its error are recorded,
  so that a bad input shape gives a failure flag beside a measured flux.
\<close>

theorem apply_failure_flag_is_bad:
  assumes "KronFlux_apply env ctrl source exposure center = (None, s')"
  shows "fluxFlag s' = (getShapeFlag source \<or>
                (\<exists>e r. solverOutcome env ctrl source exposure center = Some (Inl e, r) \<and>
                       excType e \<noteq> BadKronException)) \<and>
         fluxMeas s' \<noteq> None \<and> fluxErr s' \<noteq> None"
proof -
  from apply_completes [OF assms] obtain ap bad s2 rfr ap1 s3 s4 ap2 where
    c: "candidateAperture env ctrl source exposure center = Some (ap, bad, s2, rfr)" and
    a: "KronFlux_applyAperture env ctrl s3 exposure ap1 = (None, s4, ap2)" and
    s: "s' = s4\<lparr>radiusForRadiusKey := rfr,
                    psfRadiusKey := Some (psfKronRadius ctrl exposure center),
                    fluxFlag := bad\<rparr>"
    by blast
  from candidate_bad [OF c] applyAperture_flux [OF a] s show ?thesis by simp
qed

text \<open>
  The test source on the image without flux, with its shape flag set and with it clear:
  the solver throws \<open>BadKronException\<close> both times, and only the first run ends with
  the failure flag set.
\<close>

theorem apply_failure_flag_is_bad_witness:
  "KronFlux_apply testEnv (testCtrl False 0) (testSource True) (testExposure nullImage) (1, 1) =
     (None, (testSource True)\<lparr>fluxMeas := Some 0, fluxErr := Some 1, fluxFlag := True,
        radiusKey := Some testR, radiusForRadiusKey := Some 1, badRadiusKey := True,
        usedPsfRadiusKey := True, psfRadiusKey := Some testR, badShapeKey := True\<rparr>) \<and>
   getShapeFlag (testSource True) \<and>
   fluxFlag ((testSource True)\<lparr>fluxMeas := Some 0, fluxErr := Some 1, fluxFlag := True,
        radiusKey := Some testR, radiusForRadiusKey := Some 1, badRadiusKey := True,
        usedPsfRadiusKey := True, psfRadiusKey := Some testR, badShapeKey := True\<rparr>) \<and>
   KronFlux_apply testEnv (testCtrl False 0) (testSource False) (testExposure nullImage) (1, 1) =
     (None, (testSource False)\<lparr>fluxMeas := Some 0, fluxErr := Some 1, fluxFlag := False,
        radiusKey := Some testR, radiusForRadiusKey := Some 1, badRadiusKey := True,
        usedPsfRadiusKey := True, psfRadiusKey := Some testR, badShapeKey := False\<rparr>) \<and>
   \<not> getShapeFlag (testSource False) \<and>
   \<not> (\<exists>e r. solverOutcome testEnv (testCtrl False 0) (testSource False)
                 (testExposure nullImage) (1, 1) = Some (Inl e, r) \<and>
               excType e \<noteq> BadKronException)"
proof -
  have sf: "getShapeFlag (testSource flag) = flag" for flag by (simp add: testSource_def)
  from apply_failure_flag_is_bad [OF apply_null [of True]]
    apply_failure_flag_is_bad [OF apply_null [of False]]
  show ?thesis
    by (simp add: apply_null sf)
qed

end
